theory Spec2Isabelle
  imports Main "HOL-Library.AList"
begin

section \<open>Media objects of the browser\<close>

text \<open>
  The video store (\<^verbatim>\<open>frontend/src/stores/video.ts\<close>) drives browser objects: media
  tracks, media streams, RTP senders and peer connections. Each browser call is
  modelled by the effect it asks for. The only browser failures that are modelled are
  the ones the store itself handles as a result: a rejected device acquisition
  (\<^verbatim>\<open>getUserMedia\<close>, \<^verbatim>\<open>getDisplayMedia\<close>), a failed request to the agent's
  endpoint, and the \<^verbatim>\<open>TypeError\<close> of writing a property of \<^verbatim>\<open>undefined\<close>.
  Every action and every socket handler is a
  function from the state before to the state after: it runs to its end before the next
  one starts.
\<close>

datatype track_kind = Audio | Video

record track =
  track_id :: string
  kind :: track_kind

record media_stream =
  stream_id :: string
  tracks :: "track list"

definition getTracks :: "media_stream \<Rightarrow> track list" where
  "getTracks st = tracks st"

definition getVideoTracks :: "media_stream \<Rightarrow> track list" where
  "getVideoTracks st = filter (\<lambda>t. kind t = Video) (tracks st)"

definition getAudioTracks :: "media_stream \<Rightarrow> track list" where
  "getAudioTracks st = filter (\<lambda>t. kind t = Audio) (tracks st)"

text \<open>\<^verbatim>\<open>xs[0]\<close> of JavaScript: \<^verbatim>\<open>undefined\<close> on an empty array.\<close>

definition first_elem :: "'a list \<Rightarrow> 'a option" where
  "first_elem xs = (case xs of [] \<Rightarrow> None | x # _ \<Rightarrow> Some x)"

record rtp_sender =
  sender_track :: "track option"

datatype sdp_type = OfferType | AnswerType

text \<open>
  A session description: the text of the SDP is the browser's; the model keeps its type
  and the ids of the tracks the connection was sending when it was produced.
\<close>

record session_description =
  sdp_type :: sdp_type
  sdp_tracks :: "string list"

type_synonym ice_candidate = string

record rtc_connection =
  senders :: "rtp_sender list"
  closed :: bool
  localDescription :: "session_description option"
  remoteDescription :: "session_description option"
  remoteCandidates :: "ice_candidate list"

definition new_RTCPeerConnection :: rtc_connection where
  "new_RTCPeerConnection =
     \<lparr>senders = [], closed = False, localDescription = None,
      remoteDescription = None, remoteCandidates = []\<rparr>"

definition addTrack :: "track \<Rightarrow> rtc_connection \<Rightarrow> rtc_connection" where
  "addTrack t c = c\<lparr>senders := senders c @ [\<lparr>sender_track = Some t\<rparr>]\<rparr>"

definition replaceTrack :: "track option \<Rightarrow> rtp_sender \<Rightarrow> rtp_sender" where
  "replaceTrack t x = x\<lparr>sender_track := t\<rparr>"

definition sender_track_ids :: "rtc_connection \<Rightarrow> string list" where
  "sender_track_ids c =
     concat (map (\<lambda>s. case sender_track s of None \<Rightarrow> [] | Some t \<Rightarrow> [track_id t]) (senders c))"

definition createOffer :: "rtc_connection \<Rightarrow> session_description" where
  "createOffer c = \<lparr>sdp_type = OfferType, sdp_tracks = sender_track_ids c\<rparr>"

definition createAnswer :: "rtc_connection \<Rightarrow> session_description" where
  "createAnswer c = \<lparr>sdp_type = AnswerType, sdp_tracks = sender_track_ids c\<rparr>"

definition setLocalDescription :: "session_description \<Rightarrow> rtc_connection \<Rightarrow> rtc_connection" where
  "setLocalDescription d c = c\<lparr>localDescription := Some d\<rparr>"

definition setRemoteDescription :: "session_description \<Rightarrow> rtc_connection \<Rightarrow> rtc_connection" where
  "setRemoteDescription d c = c\<lparr>remoteDescription := Some d\<rparr>"

definition addIceCandidate :: "ice_candidate \<Rightarrow> rtc_connection \<Rightarrow> rtc_connection" where
  "addIceCandidate k c = c\<lparr>remoteCandidates := remoteCandidates c @ [k]\<rparr>"

definition close_connection :: "rtc_connection \<Rightarrow> rtc_connection" where
  "close_connection c = c\<lparr>closed := True\<rparr>"

section \<open>The video store\<close>

text \<open>The \<^verbatim>\<open>Peer\<close> interface. A connection is a reference to a browser object.\<close>

record peer =
  peer_id :: string
  peer_name :: string
  connection :: "nat option"
  stream :: "media_stream option"
  peer_audioMuted :: bool
  peer_videoMuted :: bool

text \<open>Messages the store emits on its socket.\<close>

datatype client_msg =
    VideoJoin string string
  | VideoOffer string "session_description option"
  | VideoAnswer string "session_description option"
  | VideoIceCandidate string ice_candidate
  | ScreenShareStart string
  | ScreenShareStop string
  | AiConnected string "string option"
  | VideoMute string bool bool
  | AiDisconnected string
  | VideoLeave string

record socket =
  socket_id :: "string option"
  sent :: "client_msg list"

datatype error = DeviceError string | TypeError | Error string

text \<open>
  The refs of the store, and the browser objects they point to: \<open>conns\<close> is the heap
  of peer connections (\<open>next_conn\<close> the next free address) and \<open>stopped\<close> the ids of
  the tracks on which \<^verbatim>\<open>stop()\<close> was called. The registry \<open>peers\<close> is a JavaScript
  \<^verbatim>\<open>Map\<close>: an association list in insertion order, where \<^verbatim>\<open>set\<close> on a present
  key keeps its place. \<open>disabledTracks\<close> holds the ids of the tracks whose
  \<^verbatim>\<open>enabled\<close> is false.
\<close>

record video_store =
  socket :: "socket option"
  localStream :: "media_stream option"
  screenStream :: "media_stream option"
  peers :: "(string \<times> peer) list"
  audioMuted :: bool
  videoMuted :: bool
  isScreenSharing :: bool
  sessionId :: string
  participantName :: string
  aiConnected :: bool
  aiAudioStream :: "media_stream option"
  isAIHost :: bool
  aiConnection :: "nat option"
  aiTranscript :: "string list"
  conns :: "nat \<Rightarrow> rtc_connection"
  next_conn :: nat
  stopped :: "string set"
  disabledTracks :: "string set"

text \<open>\<^verbatim>\<open>socket.value?.emit(...)\<close>: nothing is sent while there is no socket.\<close>

definition emit :: "client_msg \<Rightarrow> video_store \<Rightarrow> video_store" where
  "emit m s =
     (case socket s of
        None \<Rightarrow> s
      | Some k \<Rightarrow> s\<lparr>socket := Some (k\<lparr>sent := sent k @ [m]\<rparr>)\<rparr>)"

definition outbox :: "video_store \<Rightarrow> client_msg list" where
  "outbox s = (case socket s of None \<Rightarrow> [] | Some k \<Rightarrow> sent k)"

definition on_connection :: "nat \<Rightarrow> (rtc_connection \<Rightarrow> rtc_connection) \<Rightarrow> video_store \<Rightarrow> video_store" where
  "on_connection c f s = s\<lparr>conns := (conns s)(c := f (conns s c))\<rparr>"

text \<open>\<^verbatim>\<open>peers.value.forEach((peer, peerId) => ...)\<close>.\<close>

definition peers_forEach :: "(string \<Rightarrow> peer \<Rightarrow> video_store \<Rightarrow> video_store) \<Rightarrow> video_store \<Rightarrow> video_store" where
  "peers_forEach cb s = fold (\<lambda>(peerId, p). cb peerId p) (peers s) s"

subsection \<open>Local media and screen sharing\<close>

record media_constraints =
  want_video :: bool
  want_audio :: bool

definition initLocalMedia ::
  "(media_constraints \<Rightarrow> error + media_stream) \<Rightarrow> bool \<Rightarrow> bool \<Rightarrow> video_store
     \<Rightarrow> (error + media_stream) \<times> video_store" where
  "initLocalMedia getUserMedia video audio s =
     (case getUserMedia \<lparr>want_video = video, want_audio = audio\<rparr> of
        Inl e \<Rightarrow> (Inl e, s)
      | Inr st \<Rightarrow> (Inr st, s\<lparr>localStream := Some st\<rparr>))"

text \<open>
  \<^verbatim>\<open>getSenders().find(s => s.track?.kind === 'video')\<close> followed by
  \<^verbatim>\<open>if (sender) sender.replaceTrack(videoTrack)\<close>: the first sender whose track is a
  video track gets the new track; a connection with no such sender is left as it is.
\<close>

definition is_video_sender :: "rtp_sender \<Rightarrow> bool" where
  "is_video_sender x = (case sender_track x of None \<Rightarrow> False | Some t \<Rightarrow> kind t = Video)"

fun replace_found :: "track option \<Rightarrow> rtp_sender list \<Rightarrow> rtp_sender list" where
  "replace_found t [] = []"
| "replace_found t (x # xs) =
     (if is_video_sender x then replaceTrack t x # xs else x # replace_found t xs)"

definition replaceVideoSender :: "track option \<Rightarrow> rtc_connection \<Rightarrow> rtc_connection" where
  "replaceVideoSender t c = c\<lparr>senders := replace_found t (senders c)\<rparr>"

definition replace_cb :: "track option \<Rightarrow> string \<Rightarrow> peer \<Rightarrow> video_store \<Rightarrow> video_store" where
  "replace_cb t peerId p s =
     (case connection p of
        None \<Rightarrow> s
      | Some c \<Rightarrow> on_connection c (replaceVideoSender t) s)"

text \<open>
  \<^verbatim>\<open>startScreenShare\<close>. The parameter is the outcome of \<^verbatim>\<open>getDisplayMedia\<close>. When
  the acquired stream has no video track, \<^verbatim>\<open>videoTrack\<close> is \<^verbatim>\<open>undefined\<close>: the
  senders get a null track and the assignment to \<^verbatim>\<open>videoTrack.onended\<close> throws, which
  the \<^verbatim>\<open>catch\<close> passes on.
\<close>

definition startScreenShare ::
  "(error + media_stream) \<Rightarrow> video_store \<Rightarrow> (error + media_stream) \<times> video_store" where
  "startScreenShare getDisplayMedia s =
     (case getDisplayMedia of
        Inl e \<Rightarrow> (Inl e, s)
      | Inr st \<Rightarrow>
          (let s1 = s\<lparr>screenStream := Some st, isScreenSharing := True\<rparr>;
               videoTrack = first_elem (getVideoTracks st);
               s2 = peers_forEach (replace_cb videoTrack) s1
           in case videoTrack of
                None \<Rightarrow> (Inl TypeError, s2)
              | Some _ \<Rightarrow> (Inr st, emit (ScreenShareStart (sessionId s2)) s2)))"

definition stop_tracks :: "media_stream \<Rightarrow> video_store \<Rightarrow> video_store" where
  "stop_tracks st s = s\<lparr>stopped := stopped s \<union> set (map track_id (getTracks st))\<rparr>"

definition stopScreenShare :: "video_store \<Rightarrow> video_store" where
  "stopScreenShare s =
     (case screenStream s of
        None \<Rightarrow> s
      | Some scr \<Rightarrow>
          (let s1 = (stop_tracks scr s)\<lparr>screenStream := None, isScreenSharing := False\<rparr>;
               s2 = (case localStream s1 of
                       None \<Rightarrow> s1
                     | Some cam \<Rightarrow>
                         (case first_elem (getVideoTracks cam) of
                            None \<Rightarrow> s1
                          | Some videoTrack \<Rightarrow> peers_forEach (replace_cb (Some videoTrack)) s1))
           in emit (ScreenShareStop (sessionId s2)) s2))"

subsection \<open>Negotiation\<close>

text \<open>
  \<^verbatim>\<open>createPeerConnection(peerId, createOffer)\<close>: a new connection object carrying the
  local tracks is stored in the registry under \<open>peerId\<close>, over whatever entry was
  there (\<^verbatim>\<open>existing?.name || 'Unknown'\<close>: a missing or empty name becomes
  \<^verbatim>\<open>'Unknown'\<close>); the offer is produced and sent only when \<open>createOffer\<close> is set.
\<close>

definition local_tracks :: "video_store \<Rightarrow> track list" where
  "local_tracks s = (case localStream s of None \<Rightarrow> [] | Some st \<Rightarrow> getTracks st)"

definition createPeerConnection :: "string \<Rightarrow> bool \<Rightarrow> video_store \<Rightarrow> nat \<times> video_store" where
  "createPeerConnection peerId createOfferFlag s =
     (let pc = next_conn s;
          s0 = s\<lparr>conns := (conns s)(pc := fold addTrack (local_tracks s) new_RTCPeerConnection),
                 next_conn := Suc pc\<rparr>;
          existing = map_of (peers s0) peerId;
          entry = \<lparr>peer_id = peerId,
                   peer_name = (case existing of
                                  None \<Rightarrow> ''Unknown''
                                | Some e \<Rightarrow> if peer_name e = [] then ''Unknown'' else peer_name e),
                   connection = Some pc,
                   stream = (case existing of None \<Rightarrow> None | Some e \<Rightarrow> stream e),
                   peer_audioMuted = (case existing of None \<Rightarrow> False | Some e \<Rightarrow> peer_audioMuted e),
                   peer_videoMuted = (case existing of None \<Rightarrow> False | Some e \<Rightarrow> peer_videoMuted e)\<rparr>;
          s1 = s0\<lparr>peers := AList.update peerId entry (peers s0)\<rparr>
      in if createOfferFlag then
           (let offer = createOffer (conns s1 pc);
                s2 = on_connection pc (setLocalDescription offer) s1
            in (pc, emit (VideoOffer peerId (localDescription (conns s2 pc))) s2))
         else (pc, s1))"

definition handleOffer :: "string \<Rightarrow> session_description \<Rightarrow> video_store \<Rightarrow> video_store" where
  "handleOffer fromId sdp s =
     (let (pc, s1) = createPeerConnection fromId False s;
          s2 = on_connection pc (setRemoteDescription sdp) s1;
          answer = createAnswer (conns s2 pc);
          s3 = on_connection pc (setLocalDescription answer) s2
      in emit (VideoAnswer fromId (localDescription (conns s3 pc))) s3)"

definition handleAnswer :: "string \<Rightarrow> session_description \<Rightarrow> video_store \<Rightarrow> video_store" where
  "handleAnswer fromId sdp s =
     (case map_of (peers s) fromId of
        None \<Rightarrow> s
      | Some p \<Rightarrow>
          (case connection p of
             None \<Rightarrow> s
           | Some c \<Rightarrow> on_connection c (setRemoteDescription sdp) s))"

definition handleIceCandidate :: "string \<Rightarrow> ice_candidate \<Rightarrow> video_store \<Rightarrow> video_store" where
  "handleIceCandidate fromId candidate s =
     (case map_of (peers s) fromId of
        None \<Rightarrow> s
      | Some p \<Rightarrow>
          (case connection p of
             None \<Rightarrow> s
           | Some c \<Rightarrow> on_connection c (addIceCandidate candidate) s))"

subsection \<open>The socket handlers registered by \<^verbatim>\<open>connectVideo\<close>\<close>

text \<open>The messages the signalling server delivers to a client.\<close>

datatype server_msg =
    Video_peers "string list"
  | Video_peer_joined string string
  | Video_peer_left string
  | Video_offer string session_description
  | Video_answer string session_description
  | Video_ice_candidate string ice_candidate
  | Video_mute_status string bool bool

definition connectVideo :: "string \<Rightarrow> string \<Rightarrow> socket option \<Rightarrow> video_store \<Rightarrow> video_store" where
  "connectVideo sid name existingSocket s =
     emit (VideoJoin sid name)
       (s\<lparr>sessionId := sid, participantName := name,
          socket := Some (case existingSocket of
                            None \<Rightarrow> \<lparr>socket_id = None, sent = []\<rparr>
                          | Some k \<Rightarrow> k)\<rparr>)"

definition on_video_peers :: "string list \<Rightarrow> video_store \<Rightarrow> video_store" where
  "on_video_peers ps s = fold (\<lambda>peerId st. snd (createPeerConnection peerId True st)) ps s"

definition on_video_peer_joined :: "string \<Rightarrow> string \<Rightarrow> video_store \<Rightarrow> video_store" where
  "on_video_peer_joined pid name s =
     s\<lparr>peers := AList.update pid
         \<lparr>peer_id = pid, peer_name = name, connection = None, stream = None,
          peer_audioMuted = False, peer_videoMuted = False\<rparr> (peers s)\<rparr>"

definition on_video_peer_left :: "string \<Rightarrow> video_store \<Rightarrow> video_store" where
  "on_video_peer_left pid s =
     (let s1 = (case map_of (peers s) pid of
                  None \<Rightarrow> s
                | Some p \<Rightarrow>
                    (case connection p of
                       None \<Rightarrow> s
                     | Some c \<Rightarrow> on_connection c close_connection s))
      in s1\<lparr>peers := AList.delete pid (peers s1)\<rparr>)"

definition on_video_mute_status :: "string \<Rightarrow> bool \<Rightarrow> bool \<Rightarrow> video_store \<Rightarrow> video_store" where
  "on_video_mute_status pid am vm s =
     (case map_of (peers s) pid of
        None \<Rightarrow> s
      | Some p \<Rightarrow>
          s\<lparr>peers := AList.update pid (p\<lparr>peer_audioMuted := am, peer_videoMuted := vm\<rparr>) (peers s)\<rparr>)"

fun receive :: "server_msg \<Rightarrow> video_store \<Rightarrow> video_store" where
  "receive (Video_peers ps) s = on_video_peers ps s"
| "receive (Video_peer_joined pid name) s = on_video_peer_joined pid name s"
| "receive (Video_peer_left pid) s = on_video_peer_left pid s"
| "receive (Video_offer fromId sdp) s = handleOffer fromId sdp s"
| "receive (Video_answer fromId sdp) s = handleAnswer fromId sdp s"
| "receive (Video_ice_candidate fromId k) s = handleIceCandidate fromId k s"
| "receive (Video_mute_status pid am vm) s = on_video_mute_status pid am vm s"

subsection \<open>The AI facilitator as a virtual participant\<close>

text \<open>The display name of the virtual participant, as the bytes of its UTF-8 text.\<close>

definition ai_name :: string where
  "ai_name = map char_of
     [240, 159, 164, 150, 32, 65, 73, 32, 237, 141, 188, 236, 139, 164, 235, 166, 172,
      237, 133, 140, 236, 157, 180, 237, 132, 176 :: nat]"

definition ai_peer :: "media_stream \<Rightarrow> peer" where
  "ai_peer st =
     \<lparr>peer_id = ''ai-facilitator'', peer_name = ai_name, connection = None,
      stream = Some st, peer_audioMuted = False, peer_videoMuted = True\<rparr>"

definition has_track_id :: "string \<Rightarrow> rtc_connection \<Rightarrow> bool" where
  "has_track_id i c =
     list_ex (\<lambda>x. case sender_track x of None \<Rightarrow> False | Some t \<Rightarrow> track_id t = i) (senders c)"

definition add_if_missing :: "track \<Rightarrow> rtc_connection \<Rightarrow> rtc_connection" where
  "add_if_missing audioTrack c =
     (if has_track_id (track_id audioTrack) c then c else addTrack audioTrack c)"

definition broadcast_cb :: "track \<Rightarrow> string \<Rightarrow> peer \<Rightarrow> video_store \<Rightarrow> video_store" where
  "broadcast_cb audioTrack peerId p s =
     (if peerId = ''ai-facilitator'' then s
      else case connection p of
             None \<Rightarrow> s
           | Some c \<Rightarrow> on_connection c (add_if_missing audioTrack) s)"

definition broadcastAIAudio :: "video_store \<Rightarrow> video_store" where
  "broadcastAIAudio s =
     (case aiAudioStream s of
        None \<Rightarrow> s
      | Some st \<Rightarrow>
          (case first_elem (getAudioTracks st) of
             None \<Rightarrow> s
           | Some audioTrack \<Rightarrow> peers_forEach (broadcast_cb audioTrack) s))"

definition setAIAudioStream :: "media_stream \<Rightarrow> video_store \<Rightarrow> video_store" where
  "setAIAudioStream st s =
     (let s1 = s\<lparr>aiAudioStream := Some st, isAIHost := True, aiConnected := True\<rparr>;
          s2 = s1\<lparr>peers := AList.update ''ai-facilitator'' (ai_peer st) (peers s1)\<rparr>;
          s3 = emit (AiConnected (sessionId s2)
                       (case socket s2 of None \<Rightarrow> None | Some k \<Rightarrow> socket_id k)) s2
      in broadcastAIAudio s3)"

definition handleRemoteAIAudio :: "media_stream \<Rightarrow> video_store \<Rightarrow> video_store" where
  "handleRemoteAIAudio st s =
     (if isAIHost s then s
      else (let s1 = s\<lparr>aiAudioStream := Some st, aiConnected := True\<rparr>
            in s1\<lparr>peers := AList.update ''ai-facilitator'' (ai_peer st) (peers s1)\<rparr>))"

subsection \<open>Muting\<close>

text \<open>\<^verbatim>\<open>track.enabled = !track.enabled\<close>.\<close>

definition flip_enabled :: "track \<Rightarrow> video_store \<Rightarrow> video_store" where
  "flip_enabled t s =
     s\<lparr>disabledTracks :=
         (if track_id t \<in> disabledTracks s then disabledTracks s - {track_id t}
          else insert (track_id t) (disabledTracks s))\<rparr>"

definition toggleAudio :: "video_store \<Rightarrow> video_store" where
  "toggleAudio s =
     (case localStream s of
        None \<Rightarrow> s
      | Some st \<Rightarrow>
          (case first_elem (getAudioTracks st) of
             None \<Rightarrow> s
           | Some audioTrack \<Rightarrow>
               (let s1 = flip_enabled audioTrack s;
                    s2 = s1\<lparr>audioMuted := (track_id audioTrack \<in> disabledTracks s1)\<rparr>
                in emit (VideoMute (sessionId s2) (audioMuted s2) (videoMuted s2)) s2)))"

definition toggleVideo :: "video_store \<Rightarrow> video_store" where
  "toggleVideo s =
     (case localStream s of
        None \<Rightarrow> s
      | Some st \<Rightarrow>
          (case first_elem (getVideoTracks st) of
             None \<Rightarrow> s
           | Some videoTrack \<Rightarrow>
               (let s1 = flip_enabled videoTrack s;
                    s2 = s1\<lparr>videoMuted := (track_id videoTrack \<in> disabledTracks s1)\<rparr>
                in emit (VideoMute (sessionId s2) (audioMuted s2) (videoMuted s2)) s2)))"

subsection \<open>The callbacks that \<^verbatim>\<open>createPeerConnection\<close> installs on a connection\<close>

text \<open>
  \<^verbatim>\<open>pc.ontrack\<close> of the connection created for \<open>peerId\<close>: the first of the event's
  streams becomes the stream of the entry, if there is an entry.
\<close>

definition pc_ontrack :: "string \<Rightarrow> media_stream list \<Rightarrow> video_store \<Rightarrow> video_store" where
  "pc_ontrack peerId streams s =
     (case map_of (peers s) peerId of
        None \<Rightarrow> s
      | Some p \<Rightarrow> s\<lparr>peers := AList.update peerId (p\<lparr>stream := first_elem streams\<rparr>) (peers s)\<rparr>)"

definition pc_onicecandidate :: "string \<Rightarrow> ice_candidate option \<Rightarrow> video_store \<Rightarrow> video_store" where
  "pc_onicecandidate peerId candidate s =
     (case candidate of
        None \<Rightarrow> s
      | Some k \<Rightarrow> emit (VideoIceCandidate peerId k) s)"

subsection \<open>The agent's own connection\<close>

text \<open>
  The outcome of a \<^verbatim>\<open>fetch\<close> and of reading its body: the request or the parsing
  failed, the status was not ok, or a body was read.
\<close>

datatype 'a response = Rejected error | Status_not_ok | Body 'a

text \<open>
  \<^verbatim>\<open>connectAIRealtime\<close>. The parameters are the outcomes of the two requests: the
  ephemeral key, and the answer to the offer (kept as the track ids of its SDP).
\<close>

definition connectAIRealtime ::
  "string response \<Rightarrow> string list response \<Rightarrow> video_store \<Rightarrow> (error + unit) \<times> video_store" where
  "connectAIRealtime keyResponse sdpResponse s =
     (case localStream s of
        None \<Rightarrow> (Inl (Error ''Local media not initialized''), s)
      | Some st \<Rightarrow>
          (case keyResponse of
             Rejected e \<Rightarrow> (Inl e, s)
           | Status_not_ok \<Rightarrow> (Inl (Error ''Failed to get ephemeral key''), s)
           | Body client_secret \<Rightarrow>
               (let pc = next_conn s;
                    s0 = s\<lparr>conns := (conns s)(pc := new_RTCPeerConnection), next_conn := Suc pc,
                           aiConnection := Some pc\<rparr>;
                    s1 = (case first_elem (getAudioTracks st) of
                            None \<Rightarrow> s0
                          | Some audioTrack \<Rightarrow> on_connection pc (addTrack audioTrack) s0);
                    offer = createOffer (conns s1 pc);
                    s2 = on_connection pc (setLocalDescription offer) s1
                in case sdpResponse of
                     Rejected e \<Rightarrow> (Inl e, s2)
                   | Status_not_ok \<Rightarrow> (Inl (Error ''Failed to establish AI connection''), s2)
                   | Body answerSdp \<Rightarrow>
                       (Inr (),
                        (on_connection pc
                           (setRemoteDescription \<lparr>sdp_type = AnswerType, sdp_tracks = answerSdp\<rparr>)
                           s2)\<lparr>aiConnected := True\<rparr>))))"

text \<open>The events of the data channel of the agent's connection, after \<^verbatim>\<open>JSON.parse\<close>.\<close>

datatype realtime_event =
    Input_audio_transcription_completed string
  | Response_audio_transcript_done string
  | Other_realtime_event

definition dc_onmessage :: "realtime_event \<Rightarrow> video_store \<Rightarrow> video_store" where
  "dc_onmessage ev s =
     (case ev of
        Input_audio_transcription_completed transcript \<Rightarrow>
          s\<lparr>aiTranscript := aiTranscript s @ [''You: '' @ transcript]\<rparr>
      | Response_audio_transcript_done transcript \<Rightarrow>
          s\<lparr>aiTranscript := aiTranscript s @ [''AI: '' @ transcript]\<rparr>
      | Other_realtime_event \<Rightarrow> s)"

definition disconnectAI :: "video_store \<Rightarrow> video_store" where
  "disconnectAI s =
     (case aiConnection s of
        None \<Rightarrow> s
      | Some c \<Rightarrow>
          (let s1 = (on_connection c close_connection s)
                      \<lparr>aiConnection := None, aiConnected := False, isAIHost := False,
                       aiAudioStream := None\<rparr>;
               s2 = s1\<lparr>peers := AList.delete ''ai-facilitator'' (peers s1)\<rparr>
           in emit (AiDisconnected (sessionId s2)) s2))"

subsection \<open>Leaving the room\<close>

definition close_cb :: "string \<Rightarrow> peer \<Rightarrow> video_store \<Rightarrow> video_store" where
  "close_cb peerId p s =
     (case connection p of
        None \<Rightarrow> s
      | Some c \<Rightarrow> on_connection c close_connection s)"

definition disconnect :: "video_store \<Rightarrow> video_store" where
  "disconnect s =
     (let s1 = (peers_forEach close_cb s)\<lparr>peers := []\<rparr>;
          s2 = (case localStream s1 of None \<Rightarrow> s1 | Some st \<Rightarrow> stop_tracks st s1)
                 \<lparr>localStream := None\<rparr>;
          s3 = (case screenStream s2 of None \<Rightarrow> s2 | Some st \<Rightarrow> stop_tracks st s2)
                 \<lparr>screenStream := None\<rparr>;
          s4 = disconnectAI s3
      in emit (VideoLeave (sessionId s4)) s4)"

subsection \<open>Everything that can happen to a store\<close>

text \<open>
  A message from the server, a call of one of the store's actions (with the outcome of
  the browser or network request it makes), or a callback of a connection.
\<close>

datatype store_event =
    Server server_msg
  | Call_initLocalMedia bool bool "error + media_stream"
  | Call_startScreenShare "error + media_stream"
  | Call_stopScreenShare
  | Call_toggleAudio
  | Call_toggleVideo
  | Call_connectVideo string string "socket option"
  | Call_connectAIRealtime "string response" "string list response"
  | Call_disconnectAI
  | Call_disconnect
  | Call_setAIAudioStream media_stream
  | Call_broadcastAIAudio
  | Call_handleRemoteAIAudio media_stream
  | Pc_ontrack string "media_stream list"
  | Pc_onicecandidate string "ice_candidate option"
  | Dc_onmessage realtime_event

fun store_step :: "store_event \<Rightarrow> video_store \<Rightarrow> video_store" where
  "store_step (Server m) s = receive m s"
| "store_step (Call_initLocalMedia video audio outcome) s =
     snd (initLocalMedia (\<lambda>_. outcome) video audio s)"
| "store_step (Call_startScreenShare outcome) s = snd (startScreenShare outcome s)"
| "store_step Call_stopScreenShare s = stopScreenShare s"
| "store_step Call_toggleAudio s = toggleAudio s"
| "store_step Call_toggleVideo s = toggleVideo s"
| "store_step (Call_connectVideo sid name existingSocket) s = connectVideo sid name existingSocket s"
| "store_step (Call_connectAIRealtime keyResponse sdpResponse) s =
     snd (connectAIRealtime keyResponse sdpResponse s)"
| "store_step Call_disconnectAI s = disconnectAI s"
| "store_step Call_disconnect s = disconnect s"
| "store_step (Call_setAIAudioStream st) s = setAIAudioStream st s"
| "store_step Call_broadcastAIAudio s = broadcastAIAudio s"
| "store_step (Call_handleRemoteAIAudio st) s = handleRemoteAIAudio st s"
| "store_step (Pc_ontrack peerId streams) s = pc_ontrack peerId streams s"
| "store_step (Pc_onicecandidate peerId candidate) s = pc_onicecandidate peerId candidate s"
| "store_step (Dc_onmessage ev) s = dc_onmessage ev s"

definition store_run :: "store_event list \<Rightarrow> video_store \<Rightarrow> video_store" where
  "store_run evs s = fold store_step evs s"

section \<open>The session timer\<close>

text \<open>
  The timer state of the session store (the unnamed source file that defines
  \<^verbatim>\<open>useSessionStore\<close>) and the state of the timer component
  (\<^verbatim>\<open>frontend/src/components/session/HeaderTimer.vue\<close>) that watches it. Times are
  whole numbers: seconds for the elapsed time, milliseconds for dates.
\<close>

datatype session_phase =
  Orientation | Event_elicitation | Event_refinement | Command_policy | Timeline_ordering | Summary

fun phase_str :: "session_phase \<Rightarrow> string" where
  "phase_str Orientation = ''orientation''"
| "phase_str Event_elicitation = ''event_elicitation''"
| "phase_str Event_refinement = ''event_refinement''"
| "phase_str Command_policy = ''command_policy''"
| "phase_str Timeline_ordering = ''timeline_ordering''"
| "phase_str Summary = ''summary''"

record session =
  session_ident :: string
  phase :: session_phase
  duration_minutes :: int
  started_at :: "int option"

datatype session_msg =
    Start_workshop string string
  | Sync_timer string
  | Pause_timer string bool int

datatype timer_event =
    TimeWarning string int session_phase
  | PhaseTimeUp session_phase
  | WorkshopEnd

record timer_client =
  session_socket :: "session_msg list option"
  session :: "session option"
  currentUser :: string
  workshopStartedAt :: "int option"
  isWorkshopRunning :: bool
  isPaused :: bool
  syncedElapsedSeconds :: int
  totalMinutes :: "int option"
  elapsedSeconds :: int
  isRunning :: bool
  timerInterval :: "nat option"
  next_interval :: nat
  warningsSent :: "string set"
  emitted :: "timer_event list"

subsection \<open>Actions of the session store\<close>

definition session_emit :: "(string \<Rightarrow> session_msg) \<Rightarrow> timer_client \<Rightarrow> timer_client" where
  "session_emit m c =
     (case session_socket c of
        None \<Rightarrow> c
      | Some out \<Rightarrow>
          (case session c of
             None \<Rightarrow> c
           | Some se \<Rightarrow> c\<lparr>session_socket := Some (out @ [m (session_ident se)])\<rparr>))"

definition startWorkshop :: "timer_client \<Rightarrow> timer_client" where
  "startWorkshop c = session_emit (\<lambda>i. Start_workshop i (currentUser c)) c"

definition requestTimerSync :: "timer_client \<Rightarrow> timer_client" where
  "requestTimerSync c = session_emit Sync_timer c"

definition pauseTimer :: "bool \<Rightarrow> int \<Rightarrow> timer_client \<Rightarrow> timer_client" where
  "pauseTimer paused elapsed c = session_emit (\<lambda>i. Pause_timer i paused elapsed) c"

definition on_workshop_started :: "int \<Rightarrow> session_phase \<Rightarrow> timer_client \<Rightarrow> timer_client" where
  "on_workshop_started at ph c =
     c\<lparr>workshopStartedAt := Some at, isWorkshopRunning := True, isPaused := False,
       session := (case session c of
                     None \<Rightarrow> None
                   | Some se \<Rightarrow> Some (se\<lparr>started_at := Some at, phase := ph\<rparr>))\<rparr>"

definition on_timer_sync :: "int option \<Rightarrow> session_phase \<Rightarrow> timer_client \<Rightarrow> timer_client" where
  "on_timer_sync at ph c =
     (let c1 = (case at of
                  None \<Rightarrow> c
                | Some a \<Rightarrow> c\<lparr>workshopStartedAt := Some a, isWorkshopRunning := True\<rparr>)
      in c1\<lparr>session := (case session c1 of
                          None \<Rightarrow> None
                        | Some se \<Rightarrow> Some (se\<lparr>phase := ph\<rparr>))\<rparr>)"

definition on_timer_paused :: "bool \<Rightarrow> int \<Rightarrow> timer_client \<Rightarrow> timer_client" where
  "on_timer_paused paused elapsed c = c\<lparr>isPaused := paused, syncedElapsedSeconds := elapsed\<rparr>"

definition on_phase_changed :: "session_phase \<Rightarrow> timer_client \<Rightarrow> timer_client" where
  "on_phase_changed ph c =
     c\<lparr>session := (case session c of
                     None \<Rightarrow> None
                   | Some se \<Rightarrow> Some (se\<lparr>phase := ph\<rparr>))\<rparr>"

subsection \<open>The timer component\<close>

definition phaseAllocation :: "session_phase \<Rightarrow> int" where
  "phaseAllocation ph =
     (case ph of
        Orientation \<Rightarrow> 10 | Event_elicitation \<Rightarrow> 30 | Event_refinement \<Rightarrow> 20
      | Command_policy \<Rightarrow> 20 | Timeline_ordering \<Rightarrow> 10 | Summary \<Rightarrow> 10)"

definition phaseOrder :: "session_phase list" where
  "phaseOrder =
     [Orientation, Event_elicitation, Event_refinement, Command_policy, Timeline_ordering, Summary]"

text \<open>\<^verbatim>\<open>props.totalMinutes || sessionStore.session?.duration_minutes || 60\<close>: zero is falsy.\<close>

definition totalSeconds :: "timer_client \<Rightarrow> int" where
  "totalSeconds c =
     (let fromSession = (case session c of
                           None \<Rightarrow> 60
                         | Some se \<Rightarrow> if duration_minutes se = 0 then 60 else duration_minutes se)
      in (case totalMinutes c of
            None \<Rightarrow> fromSession
          | Some m \<Rightarrow> if m = 0 then fromSession else m) * 60)"

definition remainingSeconds :: "timer_client \<Rightarrow> int" where
  "remainingSeconds c = max 0 (totalSeconds c - elapsedSeconds c)"

definition currentPhase :: "timer_client \<Rightarrow> session_phase" where
  "currentPhase c = (case session c of None \<Rightarrow> Orientation | Some se \<Rightarrow> phase se)"

text \<open>
  \<^verbatim>\<open>Math.floor(total * (phaseAllocation[phase] / 100))\<close>: for a whole number of
  seconds the product rounds to the exact value where that is a whole number, so the
  floor is the integer quotient.
\<close>

fun timings_from :: "int \<Rightarrow> int \<Rightarrow> session_phase list \<Rightarrow> (session_phase \<times> int \<times> int) list" where
  "timings_from tot accumulated [] = []"
| "timings_from tot accumulated (ph # phs) =
     (let duration = (tot * phaseAllocation ph) div 100
      in (ph, accumulated, accumulated + duration)
           # timings_from tot (accumulated + duration) phs)"

definition phaseTimings :: "timer_client \<Rightarrow> (session_phase \<times> int \<times> int) list" where
  "phaseTimings c = timings_from (totalSeconds c) 0 phaseOrder"

definition phaseRemainingSeconds :: "timer_client \<Rightarrow> int" where
  "phaseRemainingSeconds c =
     (case find (\<lambda>t. fst t = currentPhase c) (phaseTimings c) of
        None \<Rightarrow> 0
      | Some (ph, startSeconds, endSeconds) \<Rightarrow> max 0 (endSeconds - elapsedSeconds c))"

text \<open>
  \<^verbatim>\<open>window.setInterval\<close> hands out a new non-zero handle; the callback it schedules
  is \<open>interval_tick\<close> below.
\<close>

definition startTimerLocal :: "timer_client \<Rightarrow> timer_client" where
  "startTimerLocal c =
     (if isRunning c then c
      else c\<lparr>isRunning := True, timerInterval := Some (Suc (next_interval c)),
             next_interval := Suc (next_interval c)\<rparr>)"

definition pauseTimerLocal :: "timer_client \<Rightarrow> timer_client" where
  "pauseTimerLocal c =
     (let c1 = c\<lparr>isRunning := False\<rparr>
      in case timerInterval c1 of
           None \<Rightarrow> c1
         | Some h \<Rightarrow> if h = 0 then c1 else c1\<lparr>timerInterval := None\<rparr>)"

text \<open>
  One guarded notification of \<^verbatim>\<open>checkTimeEvents\<close>:
  \<^verbatim>\<open>if (cond && !warningsSent.value.has(key)) { warningsSent.value.add(key); emit(...) }\<close>.
\<close>

definition warn_once :: "bool \<Rightarrow> string \<Rightarrow> timer_event \<Rightarrow> timer_client \<Rightarrow> timer_client" where
  "warn_once cond key ev c =
     (if cond \<and> key \<notin> warningsSent c
      then c\<lparr>warningsSent := insert key (warningsSent c), emitted := emitted c @ [ev]\<rparr>
      else c)"

definition checkTimeEvents :: "timer_client \<Rightarrow> timer_client" where
  "checkTimeEvents c =
     (let ph = currentPhase c;
          phaseRemaining = phaseRemainingSeconds c;
          totalRemaining = remainingSeconds c;
          c1 = warn_once (phaseRemaining = 300) (phase_str ph @ ''-5min'')
                 (TimeWarning ''phase-5min'' 5 ph) c;
          c2 = warn_once (phaseRemaining = 60) (phase_str ph @ ''-1min'')
                 (TimeWarning ''phase-1min'' 1 ph) c1;
          c3 = warn_once (phaseRemaining = 0) (phase_str ph @ ''-end'') (PhaseTimeUp ph) c2;
          c4 = warn_once (totalRemaining = 600) ''total-10min''
                 (TimeWarning ''total-10min'' 10 ph) c3;
          c5 = warn_once (totalRemaining = 300) ''total-5min''
                 (TimeWarning ''total-5min'' 5 ph) c4
      in if totalRemaining = 0 \<and> ''workshop-end'' \<notin> warningsSent c5
         then pauseTimerLocal (warn_once True ''workshop-end'' WorkshopEnd c5)
         else c5)"

definition interval_tick :: "timer_client \<Rightarrow> timer_client" where
  "interval_tick c =
     (if \<not> isPaused c then checkTimeEvents (c\<lparr>elapsedSeconds := elapsedSeconds c + 1\<rparr>) else c)"

definition toggleTimer :: "timer_client \<Rightarrow> timer_client" where
  "toggleTimer c =
     (if isRunning c then
        (let c1 = pauseTimerLocal c in pauseTimer True (elapsedSeconds c1) c1)
      else
        startTimerLocal
          (if \<not> isWorkshopRunning c then startWorkshop c
           else pauseTimer False (elapsedSeconds c) c))"

definition reset_button :: "timer_client \<Rightarrow> timer_client" where
  "reset_button c = c\<lparr>elapsedSeconds := 0, warningsSent := {}\<rparr>"

text \<open>
  The two watchers. \<open>now\<close> is \<^verbatim>\<open>Date.now()\<close>; a watcher runs after the handler that
  wrote the watched ref, and only when the watched value changed (a new \<^verbatim>\<open>Date\<close>
  object is always a change).
\<close>

definition watch_workshopStartedAt :: "int \<Rightarrow> timer_client \<Rightarrow> timer_client" where
  "watch_workshopStartedAt now c =
     (case workshopStartedAt c of
        None \<Rightarrow> c
      | Some startedAt \<Rightarrow>
          (let c1 = c\<lparr>elapsedSeconds := (now - startedAt) div 1000\<rparr>
           in if \<not> isRunning c1 then startTimerLocal c1 else c1))"

definition watch_isPaused :: "timer_client \<Rightarrow> timer_client" where
  "watch_isPaused c =
     (if isPaused c then pauseTimerLocal (c\<lparr>elapsedSeconds := syncedElapsedSeconds c\<rparr>)
      else if isWorkshopRunning c \<and> \<not> isRunning c then startTimerLocal c
      else c)"

definition run_isPaused_watcher :: "bool \<Rightarrow> timer_client \<Rightarrow> timer_client" where
  "run_isPaused_watcher old c = (if isPaused c \<noteq> old then watch_isPaused c else c)"

definition onMounted :: "int \<Rightarrow> timer_client \<Rightarrow> timer_client" where
  "onMounted now c =
     requestTimerSync
       (case (case session c of None \<Rightarrow> None | Some se \<Rightarrow> started_at se) of
          Some started \<Rightarrow> startTimerLocal (c\<lparr>elapsedSeconds := (now - started) div 1000\<rparr>)
        | None \<Rightarrow>
            (case workshopStartedAt c of
               Some w \<Rightarrow> startTimerLocal (c\<lparr>elapsedSeconds := (now - w) div 1000\<rparr>)
             | None \<Rightarrow> c))"

subsection \<open>What a client does, one event at a time\<close>

datatype timer_input =
    Tick
  | Click_toggle
  | Click_reset
  | Mounted int
  | Msg_workshop_started int int session_phase
  | Msg_timer_sync int "int option" session_phase
  | Msg_timer_paused bool int
  | Msg_phase_changed session_phase

text \<open>
  The interval callback runs only while an interval is set. A message is handled by the
  store, then the watchers of the refs it wrote run, in the order they were registered.
\<close>

definition process_timer_paused :: "bool \<Rightarrow> int \<Rightarrow> timer_client \<Rightarrow> timer_client" where
  "process_timer_paused paused elapsed c =
     run_isPaused_watcher (isPaused c) (on_timer_paused paused elapsed c)"

fun timer_step :: "timer_input \<Rightarrow> timer_client \<Rightarrow> timer_client" where
  "timer_step Tick c = (if timerInterval c = None then c else interval_tick c)"
| "timer_step Click_toggle c = toggleTimer c"
| "timer_step Click_reset c = reset_button c"
| "timer_step (Mounted now) c = onMounted now c"
| "timer_step (Msg_workshop_started now at ph) c =
     run_isPaused_watcher (isPaused c) (watch_workshopStartedAt now (on_workshop_started at ph c))"
| "timer_step (Msg_timer_sync now at ph) c =
     (case at of
        None \<Rightarrow> on_timer_sync at ph c
      | Some _ \<Rightarrow> watch_workshopStartedAt now (on_timer_sync at ph c))"
| "timer_step (Msg_timer_paused paused elapsed) c = process_timer_paused paused elapsed c"
| "timer_step (Msg_phase_changed ph) c = on_phase_changed ph c"

definition timer_run :: "timer_input list \<Rightarrow> timer_client \<Rightarrow> timer_client" where
  "timer_run ins c = fold timer_step ins c"

section \<open>Notions used in the statements\<close>

text \<open>The connections the registry refers to, in registry order.\<close>

definition registry_conns :: "video_store \<Rightarrow> nat list" where
  "registry_conns s = List.map_filter (\<lambda>(pid, p). connection p) (peers s)"

text \<open>The same, leaving out the entry of the virtual participant.\<close>

definition human_conns :: "video_store \<Rightarrow> nat list" where
  "human_conns s =
     List.map_filter (\<lambda>(pid, p). if pid = ''ai-facilitator'' then None else connection p) (peers s)"

text \<open>What a store has sent since an earlier state.\<close>

definition sent_since :: "video_store \<Rightarrow> video_store \<Rightarrow> client_msg list" where
  "sent_since s s' = drop (length (outbox s)) (outbox s')"

fun offer_targets :: "client_msg list \<Rightarrow> string list" where
  "offer_targets [] = []"
| "offer_targets (VideoOffer target d # ms) = target # offer_targets ms"
| "offer_targets (m # ms) = offer_targets ms"

fun answer_targets :: "client_msg list \<Rightarrow> string list" where
  "answer_targets [] = []"
| "answer_targets (VideoAnswer target d # ms) = target # answer_targets ms"
| "answer_targets (m # ms) = answer_targets ms"

text \<open>How many senders of a connection carry a given track, or a track of a given id.\<close>

definition carriers :: "track \<Rightarrow> rtc_connection \<Rightarrow> nat" where
  "carriers t c = length (filter (\<lambda>x. sender_track x = Some t) (senders c))"

definition carriers_of_id :: "string \<Rightarrow> rtc_connection \<Rightarrow> nat" where
  "carriers_of_id i c =
     length (filter (\<lambda>x. case sender_track x of None \<Rightarrow> False | Some t \<Rightarrow> track_id t = i)
               (senders c))"

definition has_video_sender :: "rtc_connection \<Rightarrow> bool" where
  "has_video_sender c = list_ex is_video_sender (senders c)"

text \<open>Over the connections of the registry: the senders that carry a given track.\<close>

definition total_carriers :: "track \<Rightarrow> video_store \<Rightarrow> nat" where
  "total_carriers t s = sum_list (map (\<lambda>c. carriers t (conns s c)) (remdups (registry_conns s)))"

text \<open>The threshold key that guards a notification in \<^verbatim>\<open>checkTimeEvents\<close>.\<close>

fun warning_key :: "timer_event \<Rightarrow> string" where
  "warning_key (TimeWarning ty minutesLeft ph) =
     (if ty = ''phase-5min'' then phase_str ph @ ''-5min''
      else if ty = ''phase-1min'' then phase_str ph @ ''-1min''
      else ty)"
| "warning_key (PhaseTimeUp ph) = phase_str ph @ ''-end''"
| "warning_key WorkshopEnd = ''workshop-end''"

text \<open>Whether the registry holds a connection for a participant.\<close>

definition connected_to :: "video_store \<Rightarrow> string \<Rightarrow> bool" where
  "connected_to s pid =
     (case map_of (peers s) pid of None \<Rightarrow> False | Some p \<Rightarrow> connection p \<noteq> None)"

text \<open>
  The two messages on which a client creates a connection for an id it is given, when
  that id is the reserved id of the virtual participant: a snapshot that lists it, and an
  offer that comes from it.
\<close>

fun dials_agent :: "store_event \<Rightarrow> bool" where
  "dials_agent (Server (Video_peers ps)) = (''ai-facilitator'' \<in> set ps)"
| "dials_agent (Server (Video_offer fromId sdp)) = (fromId = ''ai-facilitator'')"
| "dials_agent ev = False"

text \<open>
  The loop of \<^verbatim>\<open>startScreenShare\<close> and \<^verbatim>\<open>stopScreenShare\<close> in closed form: every
  connection of the registry gets the track on its first video sender.
\<close>

definition swap_video :: "track \<Rightarrow> video_store \<Rightarrow> video_store" where
  "swap_video t s =
     s\<lparr>conns := (\<lambda>c. if c \<in> set (registry_conns s)
                      then replaceVideoSender (Some t) (conns s c) else conns s c)\<rparr>"

definition after_start :: "media_stream \<Rightarrow> video_store \<Rightarrow> video_store" where
  "after_start scr s = snd (startScreenShare (Inr scr) s)"

text \<open>The notifications a timer has raised since an earlier state.\<close>

definition emitted_since :: "timer_client \<Rightarrow> timer_client \<Rightarrow> timer_event list" where
  "emitted_since c c' = drop (length (emitted c)) (emitted c')"

text \<open>
  One timer state extends another: the log grew by notifications whose keys are distinct
  and were not in the already-notified set, and the set grew by exactly those keys.
\<close>

definition extends :: "timer_client \<Rightarrow> timer_client \<Rightarrow> bool" where
  "extends c c' \<longleftrightarrow>
     (\<exists>evs. emitted c' = emitted c @ evs
          \<and> distinct (map warning_key evs)
          \<and> warning_key ` set evs \<inter> warningsSent c = {}
          \<and> warningsSent c' = warningsSent c \<union> warning_key ` set evs)"

section \<open>Example states\<close>

definition initial_store :: video_store where
  "initial_store =
     \<lparr>socket = None, localStream = None, screenStream = None, peers = [],
      audioMuted = False, videoMuted = False, isScreenSharing = False,
      sessionId = [], participantName = [], aiConnected = False,
      aiAudioStream = None, isAIHost = False, aiConnection = None, aiTranscript = [],
      conns = (\<lambda>_. new_RTCPeerConnection), next_conn = 0, stopped = {},
      disabledTracks = {}\<rparr>"

definition camera_stream :: media_stream where
  "camera_stream =
     \<lparr>stream_id = ''camera'',
      tracks = [\<lparr>track_id = ''cam-audio'', kind = Audio\<rparr>,
                \<lparr>track_id = ''cam-video'', kind = Video\<rparr>]\<rparr>"

definition microphone_stream :: media_stream where
  "microphone_stream =
     \<lparr>stream_id = ''mic'', tracks = [\<lparr>track_id = ''mic-audio'', kind = Audio\<rparr>]\<rparr>"

definition screen_stream :: media_stream where
  "screen_stream =
     \<lparr>stream_id = ''screen'', tracks = [\<lparr>track_id = ''screen-video'', kind = Video\<rparr>]\<rparr>"

definition agent_stream :: media_stream where
  "agent_stream =
     \<lparr>stream_id = ''agent'', tracks = [\<lparr>track_id = ''agent-audio'', kind = Audio\<rparr>]\<rparr>"

text \<open>A client that has its camera and has joined the video room.\<close>

definition ready_store :: video_store where
  "ready_store =
     connectVideo ''room'' ''Ann'' None
       (snd (initLocalMedia (\<lambda>_. Inr camera_stream) True True initial_store))"

text \<open>The same client after the snapshot that names the participant \<open>B\<close>.\<close>

definition joined_store :: video_store where
  "joined_store = receive (Video_peers [''B'']) ready_store"

text \<open>A client that joined with its microphone only.\<close>

definition audio_only_store :: video_store where
  "audio_only_store =
     receive (Video_peers [''B''])
       (connectVideo ''room'' ''Ann'' None
          (snd (initLocalMedia (\<lambda>_. Inr microphone_stream) False True initial_store)))"

definition initial_timer :: timer_client where
  "initial_timer =
     \<lparr>session_socket = None, session = None, currentUser = [],
      workshopStartedAt = None, isWorkshopRunning = False, isPaused = False,
      syncedElapsedSeconds = 0, totalMinutes = None, elapsedSeconds = 0,
      isRunning = False, timerInterval = None, next_interval = 0,
      warningsSent = {}, emitted = []\<rparr>"

definition bobs_offer :: session_description where
  "bobs_offer = \<lparr>sdp_type = OfferType, sdp_tracks = [''bob-audio'', ''bob-video'']\<rparr>"

definition screen_video :: track where
  "screen_video = \<lparr>track_id = ''screen-video'', kind = Video\<rparr>"

definition camera_video :: track where
  "camera_video = \<lparr>track_id = ''cam-video'', kind = Video\<rparr>"

definition agent_audio :: track where
  "agent_audio = \<lparr>track_id = ''agent-audio'', kind = Audio\<rparr>"

text \<open>The host of the agent: the agent's stream arrived before the participant \<open>B\<close> was known.\<close>

definition hosting_store :: video_store where
  "hosting_store = receive (Video_peers [''B'']) (setAIAudioStream agent_stream ready_store)"

text \<open>A client that was told of the newcomer \<open>C\<close> and has no connection to it yet.\<close>

definition waiting_store :: video_store where
  "waiting_store = receive (Video_peer_joined ''C'' ''Cy'') ready_store"

text \<open>
  A timer that started three seconds late, ticked twice and was then paused by a message
  carrying four seconds.
\<close>

definition drifting_client :: timer_client where
  "drifting_client =
     timer_run [Msg_workshop_started 5000 2000 Orientation, Tick, Tick, Msg_timer_paused True 4]
       initial_timer"

text \<open>A one-minute workshop, just started: its first phase lasts six seconds.\<close>

definition short_workshop :: timer_client where
  "short_workshop =
     timer_run [Msg_workshop_started 0 0 Orientation] (initial_timer\<lparr>totalMinutes := Some 1\<rparr>)"

definition eight_ticks :: "timer_input list" where
  "eight_ticks = [Tick, Tick, Tick, Tick, Tick, Tick, Tick, Tick]"

text \<open>
  A session of the host of the agent: it joins, learns of \<open>B\<close>, sets the agent's audio,
  answers an offer from \<open>C\<close>, shares its screen and sees \<open>B\<close> leave.
\<close>

definition session_events :: "store_event list" where
  "session_events =
     [Call_initLocalMedia True True (Inr camera_stream),
      Call_connectVideo ''room'' ''Ann'' None,
      Server (Video_peers [''B'']),
      Call_setAIAudioStream agent_stream,
      Server (Video_offer ''C'' bobs_offer),
      Pc_ontrack ''ai-facilitator'' [agent_stream],
      Call_startScreenShare (Inr screen_stream),
      Server (Video_peer_left ''B'')]"

lemmas store_defs =
  initial_store_def camera_stream_def microphone_stream_def screen_stream_def agent_stream_def
  ready_store_def joined_store_def audio_only_store_def connectVideo_def initLocalMedia_def
  on_video_peers_def createPeerConnection_def emit_def on_connection_def local_tracks_def
  getTracks_def new_RTCPeerConnection_def addTrack_def createOffer_def setLocalDescription_def
  sender_track_ids_def outbox_def sent_since_def

lemmas more_defs = store_defs bobs_offer_def screen_video_def camera_video_def agent_audio_def
  hosting_store_def waiting_store_def on_video_peer_joined_def on_video_peer_left_def
  handleOffer_def setRemoteDescription_def createAnswer_def close_connection_def
  connected_to_def registry_conns_def human_conns_def total_carriers_def carriers_def
  carriers_of_id_def has_video_sender_def is_video_sender_def getVideoTracks_def getAudioTracks_def
  first_elem_def after_start_def startScreenShare_def stopScreenShare_def stop_tracks_def
  peers_forEach_def replace_cb_def replaceVideoSender_def replaceTrack_def
  setAIAudioStream_def broadcastAIAudio_def broadcast_cb_def add_if_missing_def has_track_id_def
  handleRemoteAIAudio_def ai_peer_def handleIceCandidate_def handleAnswer_def addIceCandidate_def

lemmas timer_defs = timer_run_def initial_timer_def process_timer_paused_def run_isPaused_watcher_def
  on_timer_paused_def watch_isPaused_def pauseTimerLocal_def startTimerLocal_def
  on_workshop_started_def watch_workshopStartedAt_def interval_tick_def checkTimeEvents_def
  warn_once_def currentPhase_def phaseRemainingSeconds_def remainingSeconds_def totalSeconds_def
  phaseTimings_def phaseOrder_def phaseAllocation_def

section \<open>Stopping a screen share that is not running\<close>

text \<open>
  Claim C10. When the screen stream is null, \<^verbatim>\<open>stopScreenShare\<close> returns at once: the
  whole state is as before, so no track of any connection was replaced, the
  screen-sharing flag is unchanged and nothing was sent on the socket.
\<close>

theorem stopScreenShare_without_screen:
  "screenStream s = None \<Longrightarrow> stopScreenShare s = s"
  by (simp add: stopScreenShare_def)

theorem stopScreenShare_without_screen_witness:
  "screenStream joined_store = None \<and> stopScreenShare joined_store = joined_store"
proof -
  have h: "screenStream joined_store = None"
    by (simp add: store_defs)
  show ?thesis
    using h stopScreenShare_without_screen [OF h] by simp
qed

section \<open>Failed device acquisition\<close>

text \<open>
  Claim C6. When the browser refuses the camera and microphone, or the screen, the
  operation hands the error to its caller and the state is the one before the call:
  local stream, screen stream, screen-sharing flag, the senders of every connection and
  the messages sent are all unchanged.
\<close>

theorem acquisition_failure_changes_nothing:
  "(getUserMedia \<lparr>want_video = video, want_audio = audio\<rparr> = Inl e
      \<longrightarrow> initLocalMedia getUserMedia video audio s = (Inl e, s))
   \<and> startScreenShare (Inl e) s = (Inl e, s)"
  by (simp add: initLocalMedia_def startScreenShare_def)

theorem acquisition_failure_changes_nothing_witness:
  "initLocalMedia (\<lambda>_. Inl (DeviceError ''NotAllowedError'')) True True joined_store
     = (Inl (DeviceError ''NotAllowedError''), joined_store)
   \<and> startScreenShare (Inl (DeviceError ''NotAllowedError'')) joined_store
     = (Inl (DeviceError ''NotAllowedError''), joined_store)"
  using acquisition_failure_changes_nothing
    [of "\<lambda>_. Inl (DeviceError ''NotAllowedError'')" True True "DeviceError ''NotAllowedError''"
        joined_store]
  by simp

section \<open>Incoming ICE candidates\<close>



section \<open>Loops over the registry\<close>

lemma on_connection_fields [simp]:
  "peers (on_connection c f s) = peers s"
  "socket (on_connection c f s) = socket s"
  "localStream (on_connection c f s) = localStream s"
  "screenStream (on_connection c f s) = screenStream s"
  "next_conn (on_connection c f s) = next_conn s"
  "sessionId (on_connection c f s) = sessionId s"
  "conns (on_connection c f s) = (conns s)(c := f (conns s c))"
  by (simp_all add: on_connection_def)

lemma emit_fields [simp]:
  "peers (emit m s) = peers s"
  "conns (emit m s) = conns s"
  "next_conn (emit m s) = next_conn s"
  "localStream (emit m s) = localStream s"
  "screenStream (emit m s) = screenStream s"
  "isScreenSharing (emit m s) = isScreenSharing s"
  "sessionId (emit m s) = sessionId s"
  "aiAudioStream (emit m s) = aiAudioStream s"
  "isAIHost (emit m s) = isAIHost s"
  "stopped (emit m s) = stopped s"
  by (simp_all add: emit_def split: option.splits)

lemma outbox_emit:
  "outbox (emit m s) = (if socket s = None then [] else outbox s @ [m])"
  by (simp add: emit_def outbox_def split: option.splits)

lemma sent_since_emit:
  "outbox s1 = outbox s \<Longrightarrow> socket s1 = None \<longleftrightarrow> socket s = None \<Longrightarrow>
   sent_since s (emit m s1) = (if socket s = None then [] else [m])"
  by (simp add: sent_since_def outbox_emit)

text \<open>
  A loop that applies an idempotent operation to the connection each entry selects: a
  connection selected by several entries is changed as if selected once.
\<close>

lemma fold_on_connections:
  assumes idem: "\<And>c. f (f c) = f c"
  shows "fold (\<lambda>(pid, p) st. case sel pid p of None \<Rightarrow> st | Some c \<Rightarrow> on_connection c f st) ps s
         = s\<lparr>conns := (\<lambda>c. if c \<in> set (List.map_filter (\<lambda>(pid, p). sel pid p) ps)
                            then f (conns s c) else conns s c)\<rparr>"
proof (induction ps arbitrary: s)
  case Nil
  then show ?case by simp
next
  case (Cons a ps)
  obtain pid p where a: "a = (pid, p)" by (cases a)
  show ?case
  proof (cases "sel pid p")
    case None
    then show ?thesis using Cons a by simp
  next
    case (Some c)
    then show ?thesis using Cons a idem
      by (auto simp add: on_connection_def fun_eq_iff intro!: video_store.equality)
  qed
qed

lemma peers_forEach_peers:
  assumes "\<And>pid p st. peers (cb pid p st) = peers st"
  shows "peers (peers_forEach cb s) = peers s"
proof -
  have "peers (fold (\<lambda>(pid, p). cb pid p) ps s) = peers s" for ps
    using assms by (induction ps arbitrary: s) auto
  then show ?thesis by (simp add: peers_forEach_def)
qed

lemma peers_forEach_next_conn:
  assumes "\<And>pid p st. next_conn (cb pid p st) = next_conn st"
  shows "next_conn (peers_forEach cb s) = next_conn s"
proof -
  have "next_conn (fold (\<lambda>(pid, p). cb pid p) ps s) = next_conn s" for ps
    using assms by (induction ps arbitrary: s) auto
  then show ?thesis by (simp add: peers_forEach_def)
qed

section \<open>The virtual participant\<close>

lemma broadcast_cb_peers: "peers (broadcast_cb t pid p st) = peers st"
  by (simp add: broadcast_cb_def split: option.splits)

lemma broadcastAIAudio_peers: "peers (broadcastAIAudio s) = peers s"
  by (simp add: broadcastAIAudio_def peers_forEach_peers broadcast_cb_peers split: option.splits)

lemma broadcastAIAudio_next_conn: "next_conn (broadcastAIAudio s) = next_conn s"
  by (simp add: broadcastAIAudio_def peers_forEach_next_conn broadcast_cb_def split: option.splits)

text \<open>
  The two writers of the virtual participant's entry store an entry without a
  connection and allocate no connection.
\<close>

lemma agent_entry_written_without_connection:
  "map_of (peers (setAIAudioStream st s)) ''ai-facilitator'' = Some (ai_peer st)
   \<and> connection (ai_peer st) = None
   \<and> next_conn (setAIAudioStream st s) = next_conn s
   \<and> (\<not> isAIHost s
        \<longrightarrow> map_of (peers (handleRemoteAIAudio st s)) ''ai-facilitator'' = Some (ai_peer st))
   \<and> (isAIHost s \<longrightarrow> handleRemoteAIAudio st s = s)
   \<and> conns (handleRemoteAIAudio st s) = conns s
   \<and> next_conn (handleRemoteAIAudio st s) = next_conn s
   \<and> socket (handleRemoteAIAudio st s) = socket s"
  by (simp add: setAIAudioStream_def handleRemoteAIAudio_def Let_def broadcastAIAudio_peers
      broadcastAIAudio_next_conn update_conv' ai_peer_def)

subsection \<open>Fan-out of the agent's audio\<close>

lemma has_track_id_carriers: "has_track_id i c \<longleftrightarrow> carriers_of_id i c \<noteq> 0"
  by (auto simp: has_track_id_def carriers_of_id_def list_ex_iff filter_empty_conv)

lemma add_if_missing_idem: "add_if_missing t (add_if_missing t c) = add_if_missing t c"
  by (simp add: add_if_missing_def has_track_id_def addTrack_def)

lemma carriers_add_if_missing:
  "carriers_of_id (track_id t) (add_if_missing t c) = max 1 (carriers_of_id (track_id t) c)"
  by (auto simp: add_if_missing_def has_track_id_carriers)
     (simp add: carriers_of_id_def addTrack_def)

lemma broadcastAIAudio_eq:
  assumes "aiAudioStream s = Some st" "first_elem (getAudioTracks st) = Some t"
  shows "broadcastAIAudio s
         = s\<lparr>conns := (\<lambda>c. if c \<in> set (human_conns s)
                            then add_if_missing t (conns s c) else conns s c)\<rparr>"
proof -
  have "broadcastAIAudio s
        = fold (\<lambda>(pid, p) st. case (if pid = ''ai-facilitator'' then None else connection p) of
                   None \<Rightarrow> st | Some c \<Rightarrow> on_connection c (add_if_missing t) st) (peers s) s"
    using assms
    by (simp add: broadcastAIAudio_def peers_forEach_def broadcast_cb_def [abs_def] if_distrib
          cong: if_cong)
  also have "\<dots> = s\<lparr>conns := (\<lambda>c. if c \<in> set (List.map_filter
                 (\<lambda>(pid, p). if pid = ''ai-facilitator'' then None else connection p) (peers s))
                            then add_if_missing t (conns s c) else conns s c)\<rparr>"
    by (rule fold_on_connections) (rule add_if_missing_idem)
  finally show ?thesis by (simp add: human_conns_def)
qed

lemma broadcastAIAudio_idem: "broadcastAIAudio (broadcastAIAudio s) = broadcastAIAudio s"
proof (cases "aiAudioStream s")
  case None
  then show ?thesis by (simp add: broadcastAIAudio_def)
next
  case (Some st)
  show ?thesis
  proof (cases "first_elem (getAudioTracks st)")
    case None
    then show ?thesis using Some by (simp add: broadcastAIAudio_def)
  next
    case t: (Some t)
    define X where "X = s\<lparr>conns := (\<lambda>c. if c \<in> set (human_conns s)
                            then add_if_missing t (conns s c) else conns s c)\<rparr>"
    have b: "broadcastAIAudio s = X"
      unfolding X_def by (rule broadcastAIAudio_eq [OF Some t])
    have s': "aiAudioStream X = Some st" by (simp add: X_def Some)
    have "broadcastAIAudio X = X\<lparr>conns := (\<lambda>c. if c \<in> set (human_conns X)
                            then add_if_missing t (conns X c) else conns X c)\<rparr>"
      by (rule broadcastAIAudio_eq [OF s' t])
    also have "\<dots> = X"
      by (simp add: X_def human_conns_def add_if_missing_idem fun_eq_iff)
    finally show ?thesis by (simp add: b)
  qed
qed

text \<open>
  Claim C4. With the agent's audio track set, a second \<^verbatim>\<open>broadcastAIAudio\<close> right after
  the first changes nothing. After the first call every connection of a registry entry
  other than the virtual participant's carries a track with the agent track's id: on one
  sender more than before when it carried none, on as many as before otherwise. The
  second call leaves the senders of each such connection as they are, so a connection
  that carried the track on at most one sender before carries it on exactly one after
  both calls.
\<close>

theorem fan_out_idempotent:
  assumes "aiAudioStream s = Some st" "first_elem (getAudioTracks st) = Some t"
  shows "broadcastAIAudio (broadcastAIAudio s) = broadcastAIAudio s
       \<and> (\<forall>c \<in> set (human_conns s).
             carriers_of_id (track_id t) (conns (broadcastAIAudio s) c)
               = max 1 (carriers_of_id (track_id t) (conns s c))
           \<and> senders (conns (broadcastAIAudio (broadcastAIAudio s)) c)
               = senders (conns (broadcastAIAudio s) c)
           \<and> (carriers_of_id (track_id t) (conns s c) \<le> 1
                \<longrightarrow> carriers_of_id (track_id t)
                      (conns (broadcastAIAudio (broadcastAIAudio s)) c) = 1))"
proof -
  have i: "broadcastAIAudio (broadcastAIAudio s) = broadcastAIAudio s"
    by (rule broadcastAIAudio_idem)
  have c: "\<And>c. c \<in> set (human_conns s) \<Longrightarrow>
             conns (broadcastAIAudio s) c = add_if_missing t (conns s c)"
    by (simp add: broadcastAIAudio_eq [OF assms])
  show ?thesis
    unfolding i using c by (auto simp: carriers_add_if_missing)
qed

theorem fan_out_idempotent_witness:
  "aiAudioStream hosting_store = Some agent_stream
   \<and> first_elem (getAudioTracks agent_stream) = Some agent_audio
   \<and> human_conns hosting_store = [0]
   \<and> carriers_of_id ''agent-audio'' (conns hosting_store 0) = 0
   \<and> carriers_of_id ''agent-audio'' (conns (broadcastAIAudio (broadcastAIAudio hosting_store)) 0) = 1
   \<and> broadcastAIAudio (broadcastAIAudio hosting_store) = broadcastAIAudio hosting_store"
proof -
  have h1: "aiAudioStream hosting_store = Some agent_stream"
    by (simp add: more_defs)
  have h2: "first_elem (getAudioTracks agent_stream) = Some agent_audio"
    by (simp add: more_defs)
  have r: "human_conns hosting_store = [0]"
    by (simp add: more_defs)
  have c: "carriers_of_id ''agent-audio'' (conns hosting_store 0) = 0"
    by (simp add: more_defs)
  have i: "track_id agent_audio = ''agent-audio''"
    by (simp add: agent_audio_def)
  show ?thesis
    using h1 h2 r c fan_out_idempotent [OF h1 h2] by (simp add: i)
qed

section \<open>Swapping the outgoing video track\<close>

lemma replace_found_idem:
  "kind vt = Video \<Longrightarrow>
   replace_found (Some vt) (replace_found (Some vt) xs) = replace_found (Some vt) xs"
  by (induction xs) (auto simp: is_video_sender_def replaceTrack_def)

lemma replaceVideoSender_idem:
  "kind vt = Video \<Longrightarrow>
   replaceVideoSender (Some vt) (replaceVideoSender (Some vt) c) = replaceVideoSender (Some vt) c"
  by (simp add: replaceVideoSender_def replace_found_idem)

lemma forEach_replace:
  assumes "kind vt = Video"
  shows "peers_forEach (replace_cb (Some vt)) s
         = s\<lparr>conns := (\<lambda>c. if c \<in> set (registry_conns s)
                            then replaceVideoSender (Some vt) (conns s c) else conns s c)\<rparr>"
proof -
  have "peers_forEach (replace_cb (Some vt)) s
        = fold (\<lambda>(pid, p) st. case connection p of None \<Rightarrow> st
                 | Some c \<Rightarrow> on_connection c (replaceVideoSender (Some vt)) st) (peers s) s"
    by (simp add: peers_forEach_def replace_cb_def [abs_def])
  also have "\<dots> = s\<lparr>conns := (\<lambda>c. if c \<in> set (List.map_filter (\<lambda>(pid, p). connection p) (peers s))
                            then replaceVideoSender (Some vt) (conns s c) else conns s c)\<rparr>"
    by (rule fold_on_connections) (rule replaceVideoSender_idem [OF assms])
  finally show ?thesis by (simp add: registry_conns_def)
qed

lemma first_video_kind:
  "first_elem (getVideoTracks st) = Some vt \<Longrightarrow> kind vt = Video"
proof -
  assume "first_elem (getVideoTracks st) = Some vt"
  then obtain r where "filter (\<lambda>t. kind t = Video) (tracks st) = vt # r"
    by (auto simp: first_elem_def getVideoTracks_def split: list.splits)
  then have "vt \<in> set (filter (\<lambda>t. kind t = Video) (tracks st))"
    by simp
  then show ?thesis by simp
qed

lemma replace_found_none:
  "\<not> list_ex is_video_sender xs \<Longrightarrow> replace_found t xs = xs"
  by (induction xs) auto

lemma carriers_replace_found_new:
  "kind vt = Video \<Longrightarrow> list_ex is_video_sender xs \<Longrightarrow>
   length (filter (\<lambda>x. sender_track x = Some vt) xs) = 0 \<Longrightarrow>
   length (filter (\<lambda>x. sender_track x = Some vt) (replace_found (Some vt) xs)) = 1"
  by (induction xs) (auto simp: replaceTrack_def split: if_splits)

lemma carriers_replace_found_old_aux:
  "kind old = Video \<Longrightarrow> find is_video_sender xs = Some x \<Longrightarrow> sender_track x = Some old \<Longrightarrow>
   old \<noteq> vt \<Longrightarrow>
   length (filter (\<lambda>y. sender_track y = Some old) xs) = 1 \<Longrightarrow>
   length (filter (\<lambda>y. sender_track y = Some old) (replace_found (Some vt) xs)) = 0"
  by (induction xs) (auto simp: replaceTrack_def is_video_sender_def split: if_splits)

lemma carriers_replace_found_old:
  assumes "find is_video_sender xs = Some x" "sender_track x = Some old" "old \<noteq> vt"
    and "length (filter (\<lambda>y. sender_track y = Some old) xs) = 1"
  shows "length (filter (\<lambda>y. sender_track y = Some old) (replace_found (Some vt) xs)) = 0"
proof -
  have "is_video_sender x" using assms(1) by (auto simp: find_Some_iff)
  then have "kind old = Video" using assms(2) by (simp add: is_video_sender_def)
  then show ?thesis using assms by (rule carriers_replace_found_old_aux)
qed

lemma sum_list_indicator:
  "(\<And>x. x \<in> set xs \<Longrightarrow> g x = (if P x then 1 else (0::nat))) \<Longrightarrow>
   sum_list (map g xs) = length (filter P xs)"
  by (induction xs) auto

lemma startScreenShare_eq:
  assumes "first_elem (getVideoTracks scr) = Some vt"
  shows "startScreenShare (Inr scr) s
         = (Inr scr, emit (ScreenShareStart (sessionId s))
                        (swap_video vt (s\<lparr>screenStream := Some scr, isScreenSharing := True\<rparr>)))"
  using assms forEach_replace [OF first_video_kind [OF assms]]
  by (simp add: startScreenShare_def swap_video_def Let_def registry_conns_def)

lemma stopScreenShare_eq:
  assumes "screenStream s = Some scr" "localStream s = Some cam"
    and "first_elem (getVideoTracks cam) = Some vt"
  shows "stopScreenShare s
         = emit (ScreenShareStop (sessionId s))
             (swap_video vt ((stop_tracks scr s)\<lparr>screenStream := None, isScreenSharing := False\<rparr>))"
  using assms forEach_replace [OF first_video_kind [OF assms(3)]]
  by (simp add: stopScreenShare_def swap_video_def Let_def registry_conns_def stop_tracks_def)

lemma swap_video_props:
  assumes k: "kind vt = Video" and p: "peers s1 = peers s" and c: "conns s1 = conns s"
    and s': "peers s' = peers s" "conns s' = conns (swap_video vt s1)"
  shows "(\<forall>c \<in> set (registry_conns s).
            conns s' c = replaceVideoSender (Some vt) (conns s c)
          \<and> (\<not> has_video_sender (conns s c) \<longrightarrow> conns s' c = conns s c)
          \<and> (has_video_sender (conns s c) \<and> carriers vt (conns s c) = 0
               \<longrightarrow> carriers vt (conns s' c) = 1)
          \<and> (\<forall>x old. find is_video_sender (senders (conns s c)) = Some x
                 \<and> sender_track x = Some old \<and> old \<noteq> vt \<and> carriers old (conns s c) = 1
               \<longrightarrow> carriers old (conns s' c) = 0))
       \<and> ((\<forall>c \<in> set (registry_conns s). carriers vt (conns s c) = 0)
            \<longrightarrow> total_carriers vt s'
                = length (filter (\<lambda>c. has_video_sender (conns s c)) (remdups (registry_conns s))))"
proof -
  have rc: "registry_conns s1 = registry_conns s" "registry_conns s' = registry_conns s"
    using p s'(1) by (simp_all add: registry_conns_def)
  have eq: "\<And>c. c \<in> set (registry_conns s) \<Longrightarrow>
              conns s' c = replaceVideoSender (Some vt) (conns s c)"
    using s'(2) c rc by (simp add: swap_video_def)
  have A: "\<And>c. \<not> has_video_sender (conns s c) \<Longrightarrow>
             replaceVideoSender (Some vt) (conns s c) = conns s c"
    by (simp add: has_video_sender_def replaceVideoSender_def replace_found_none)
  have B: "\<And>c. has_video_sender (conns s c) \<Longrightarrow> carriers vt (conns s c) = 0 \<Longrightarrow>
              carriers vt (replaceVideoSender (Some vt) (conns s c)) = 1"
    using carriers_replace_found_new [OF k]
    by (simp add: has_video_sender_def replaceVideoSender_def carriers_def)
  have C: "\<And>c x old. find is_video_sender (senders (conns s c)) = Some x \<Longrightarrow>
              sender_track x = Some old \<Longrightarrow> old \<noteq> vt \<Longrightarrow> carriers old (conns s c) = 1 \<Longrightarrow>
              carriers old (replaceVideoSender (Some vt) (conns s c)) = 0"
    using carriers_replace_found_old
    by (simp add: replaceVideoSender_def carriers_def)
  have D: "total_carriers vt s'
           = length (filter (\<lambda>c. has_video_sender (conns s c)) (remdups (registry_conns s)))"
    if z: "\<forall>c \<in> set (registry_conns s). carriers vt (conns s c) = 0"
  proof -
    have "\<And>c. c \<in> set (remdups (registry_conns s)) \<Longrightarrow>
            carriers vt (conns s' c) = (if has_video_sender (conns s c) then 1 else 0)"
      using eq A B z by auto
    then show ?thesis
      unfolding total_carriers_def rc by (rule sum_list_indicator)
  qed
  show ?thesis using eq A B C D by auto
qed

text \<open>
  A client that joined with its microphone only has one registry connection, and that
  connection has no video sender: after the screen share has started, no sender carries
  the screen's video track.
\<close>

theorem audio_only_screen_share_counterexample:
  "registry_conns audio_only_store = [0]
   \<and> total_carriers screen_video (after_start screen_stream audio_only_store) = 0"
  by (simp add: more_defs)

text \<open>
  Claim C3, in the form that holds of the code. Starting a screen share with an acquired
  stream whose first video track is \<open>vt\<close> puts \<open>vt\<close> on the first
  video sender of every registry connection that has a video sender, and leaves a
  connection without one as it is. Where \<open>vt\<close> was on no sender before, such a
  connection then carries \<open>vt\<close> on exactly one sender, and the number of
  senders carrying \<open>vt\<close> over the registry is the number of its distinct
  connections that have a video sender; the track that first video sender carried, if no
  other sender of the connection carried it, is then carried by none. Stopping the screen
  share does the same with the first video track of the local stream, when there is one.
  The registry is unchanged and the only message sent is
  \<^verbatim>\<open>screen_share_start\<close>
  (\<^verbatim>\<open>screen_share_stop\<close>): there is no offer and no answer.
\<close>

theorem screen_share_swaps_first_video_sender:
  assumes start: "first_elem (getVideoTracks scr) = Some vt"
    and stop: "screenStream u = Some shown" "localStream u = Some cam"
              "first_elem (getVideoTracks cam) = Some ct"
  shows "(fst (startScreenShare (Inr scr) s) = Inr scr
          \<and> peers (after_start scr s) = peers s
          \<and> sent_since s (after_start scr s)
              = (if socket s = None then [] else [ScreenShareStart (sessionId s)])
          \<and> (\<forall>c \<in> set (registry_conns s).
                conns (after_start scr s) c = replaceVideoSender (Some vt) (conns s c)
              \<and> (\<not> has_video_sender (conns s c) \<longrightarrow> conns (after_start scr s) c = conns s c)
              \<and> (has_video_sender (conns s c) \<and> carriers vt (conns s c) = 0
                   \<longrightarrow> carriers vt (conns (after_start scr s) c) = 1)
              \<and> (\<forall>x old. find is_video_sender (senders (conns s c)) = Some x
                     \<and> sender_track x = Some old \<and> old \<noteq> vt \<and> carriers old (conns s c) = 1
                   \<longrightarrow> carriers old (conns (after_start scr s) c) = 0))
          \<and> ((\<forall>c \<in> set (registry_conns s). carriers vt (conns s c) = 0)
               \<longrightarrow> total_carriers vt (after_start scr s)
                   = length (filter (\<lambda>c. has_video_sender (conns s c))
                               (remdups (registry_conns s)))))
       \<and> (peers (stopScreenShare u) = peers u
          \<and> sent_since u (stopScreenShare u)
              = (if socket u = None then [] else [ScreenShareStop (sessionId u)])
          \<and> (\<forall>c \<in> set (registry_conns u).
                conns (stopScreenShare u) c = replaceVideoSender (Some ct) (conns u c)
              \<and> (\<not> has_video_sender (conns u c) \<longrightarrow> conns (stopScreenShare u) c = conns u c)
              \<and> (has_video_sender (conns u c) \<and> carriers ct (conns u c) = 0
                   \<longrightarrow> carriers ct (conns (stopScreenShare u) c) = 1)
              \<and> (\<forall>x old. find is_video_sender (senders (conns u c)) = Some x
                     \<and> sender_track x = Some old \<and> old \<noteq> ct \<and> carriers old (conns u c) = 1
                   \<longrightarrow> carriers old (conns (stopScreenShare u) c) = 0))
          \<and> ((\<forall>c \<in> set (registry_conns u). carriers ct (conns u c) = 0)
               \<longrightarrow> total_carriers ct (stopScreenShare u)
                   = length (filter (\<lambda>c. has_video_sender (conns u c))
                               (remdups (registry_conns u)))))"
proof -
  let ?s1 = "s\<lparr>screenStream := Some scr, isScreenSharing := True\<rparr>"
  let ?u1 = "(stop_tracks shown u)\<lparr>screenStream := None, isScreenSharing := False\<rparr>"
  have a: "after_start scr s = emit (ScreenShareStart (sessionId s)) (swap_video vt ?s1)"
    by (simp add: after_start_def startScreenShare_eq [OF start])
  have b: "stopScreenShare u = emit (ScreenShareStop (sessionId u)) (swap_video ct ?u1)"
    by (simp add: stopScreenShare_eq [OF stop])
  have r: "fst (startScreenShare (Inr scr) s) = Inr scr"
    by (simp add: startScreenShare_eq [OF start])
  have pa: "peers (after_start scr s) = peers s"
    by (simp add: a swap_video_def)
  have pb: "peers (stopScreenShare u) = peers u"
    by (simp add: b swap_video_def stop_tracks_def)
  have ma: "sent_since s (after_start scr s)
            = (if socket s = None then [] else [ScreenShareStart (sessionId s)])"
    unfolding a by (rule sent_since_emit) (simp_all add: swap_video_def outbox_def)
  have mb: "sent_since u (stopScreenShare u)
            = (if socket u = None then [] else [ScreenShareStop (sessionId u)])"
    unfolding b by (rule sent_since_emit) (simp_all add: swap_video_def outbox_def stop_tracks_def)
  have ca: "conns (after_start scr s) = conns (swap_video vt ?s1)"
    by (simp add: a)
  have cb: "conns (stopScreenShare u) = conns (swap_video ct ?u1)"
    by (simp add: b)
  note A = swap_video_props [OF first_video_kind [OF start], of ?s1 s "after_start scr s",
      OF _ _ pa ca]
  note B = swap_video_props [OF first_video_kind [OF stop(3)], of ?u1 u "stopScreenShare u",
      OF _ _ pb cb]
  have A': "peers ?s1 = peers s" "conns ?s1 = conns s" by simp_all
  have B': "peers ?u1 = peers u" "conns ?u1 = conns u" by (simp_all add: stop_tracks_def)
  show ?thesis
    using r pa ma pb mb A [OF A'] B [OF B'] by blast
qed

theorem screen_share_swaps_first_video_sender_witness:
  "first_elem (getVideoTracks screen_stream) = Some screen_video
   \<and> screenStream (after_start screen_stream joined_store) = Some screen_stream
   \<and> localStream (after_start screen_stream joined_store) = Some camera_stream
   \<and> first_elem (getVideoTracks camera_stream) = Some camera_video
   \<and> registry_conns joined_store = [0]
   \<and> total_carriers screen_video (after_start screen_stream joined_store) = 1
   \<and> carriers camera_video (conns (after_start screen_stream joined_store) 0) = 0
   \<and> carriers camera_video (conns (stopScreenShare (after_start screen_stream joined_store)) 0) = 1
   \<and> sent_since joined_store (after_start screen_stream joined_store) = [ScreenShareStart ''room'']"
proof -
  let ?u = "after_start screen_stream joined_store"
  have h1: "first_elem (getVideoTracks screen_stream) = Some screen_video"
    by (simp add: more_defs)
  have h2: "screenStream ?u = Some screen_stream"
    by (simp add: more_defs)
  have h3: "localStream ?u = Some camera_stream"
    by (simp add: more_defs)
  have h4: "first_elem (getVideoTracks camera_stream) = Some camera_video"
    by (simp add: more_defs)
  have r: "registry_conns joined_store = [0]" "registry_conns ?u = [0]"
    by (simp_all add: more_defs)
  have c': "carriers screen_video (conns joined_store 0) = 0"
       "carriers camera_video (conns joined_store 0) = 1"
       "has_video_sender (conns joined_store 0)"
       "find is_video_sender (senders (conns joined_store 0))
          = Some \<lparr>sender_track = Some camera_video\<rparr>"
       "socket joined_store \<noteq> None" "sessionId joined_store = ''room''"
       "camera_video \<noteq> screen_video"
    by (simp_all add: more_defs)
  have d: "has_video_sender (conns ?u 0)"
    by (simp add: more_defs)
  note T = screen_share_swaps_first_video_sender [OF h1 h2 h3 h4, of joined_store]
  have t1: "total_carriers screen_video ?u = 1"
    using T r c' by simp
  have t2: "carriers camera_video (conns ?u 0) = 0"
    using T r c' by auto
  have t3: "carriers camera_video (conns (stopScreenShare ?u) 0) = 1"
    using T r d t2 by auto
  have t4: "sent_since joined_store ?u = [ScreenShareStart ''room'']"
    using T c' by simp
  show ?thesis
    using h1 h2 h3 h4 r t1 t2 t3 t4 by simp
qed

section \<open>Who offers\<close>

lemma cpc_socket_None:
  "socket (snd (createPeerConnection pid b s)) = None \<longleftrightarrow> socket s = None"
  by (simp add: createPeerConnection_def Let_def emit_def split: option.splits)

lemma cpc_local_tracks:
  "local_tracks (snd (createPeerConnection pid b s)) = local_tracks s"
  by (simp add: createPeerConnection_def Let_def local_tracks_def)

lemma cpc_outbox_offer:
  "outbox (snd (createPeerConnection pid True s))
   = (if socket s = None then []
      else outbox s @ [VideoOffer pid
             (Some (createOffer (fold addTrack (local_tracks s) new_RTCPeerConnection)))])"
  by (simp add: createPeerConnection_def Let_def outbox_emit setLocalDescription_def createOffer_def
        sender_track_ids_def local_tracks_def)
     (simp add: outbox_def)

lemma cpc_connected:
  "connected_to (snd (createPeerConnection pid b s)) q \<longleftrightarrow> q = pid \<or> connected_to s q"
  by (simp add: createPeerConnection_def Let_def connected_to_def update_conv' on_connection_def)

lemma on_video_peers_outbox:
  "socket s \<noteq> None \<Longrightarrow>
   outbox (on_video_peers ps s)
   = outbox s @ map (\<lambda>pid. VideoOffer pid
        (Some (createOffer (fold addTrack (local_tracks s) new_RTCPeerConnection)))) ps"
  unfolding on_video_peers_def
proof (induction ps arbitrary: s)
  case Nil
  then show ?case by simp
next
  case (Cons a ps)
  let ?s1 = "snd (createPeerConnection a True s)"
  have "socket ?s1 \<noteq> None"
    using Cons.prems by (simp only: cpc_socket_None not_False_eq_True)
  from Cons.IH [OF this] show ?case
    using Cons.prems by (simp only: fold_simps cpc_local_tracks cpc_outbox_offer) simp
qed

lemma on_video_peers_connected:
  "connected_to (on_video_peers ps s) q \<longleftrightarrow> q \<in> set ps \<or> connected_to s q"
  unfolding on_video_peers_def
  by (induction ps arbitrary: s) (auto simp: cpc_connected)

lemma offer_targets_map_offer: "offer_targets (map (\<lambda>pid. VideoOffer pid (d pid)) ps) = ps"
  by (induction ps) auto

lemma handleOffer_outbox:
  "outbox (handleOffer fromId sdp s)
   = (if socket s = None then []
      else outbox s @ [VideoAnswer fromId
             (Some (createAnswer (fold addTrack (local_tracks s) new_RTCPeerConnection)))])"
  by (simp add: handleOffer_def createPeerConnection_def Let_def outbox_emit setLocalDescription_def
        setRemoteDescription_def createAnswer_def sender_track_ids_def local_tracks_def)
     (simp add: outbox_def)

lemma handleOffer_connected: "connected_to (handleOffer fromId sdp s) fromId"
  by (simp add: handleOffer_def createPeerConnection_def Let_def connected_to_def update_conv')

text \<open>
  A client in the room that is told a newcomer \<open>B\<close> joined sends nothing and holds no
  connection to \<open>B\<close>; the same client, handed a snapshot that names \<open>A\<close>, sends an
  offer to \<open>A\<close>.
\<close>

theorem existing_participant_waits_counterexample:
  "sent_since ready_store (receive (Video_peer_joined ''B'' ''Bob'') ready_store) = []
   \<and> \<not> connected_to (receive (Video_peer_joined ''B'' ''Bob'') ready_store) ''B''
   \<and> offer_targets (sent_since ready_store (receive (Video_peers [''A'']) ready_store)) = [''A'']"
  by (simp add: more_defs)

text \<open>
  Claim C1, in the form that holds of the code. The initiator of a negotiation triggered
  by a join is the newcomer. A client that receives the join notification for a newcomer
  records the newcomer without a connection, allocates none and sends nothing: it waits
  for the offer. The newcomer, on the snapshot of the participants already present,
  creates a connection to each of them and sends each of them one offer, in the order of
  the snapshot, and sends nothing else. The present client that then receives the
  newcomer's offer creates its connection and sends one answer and no offer. So of each
  pair only the newcomer offers.
\<close>

theorem newcomer_offers_existing_answers:
  assumes "socket a \<noteq> None" "socket b \<noteq> None"
  shows "sent_since a (on_video_peer_joined newcomer name a) = []
       \<and> \<not> connected_to (on_video_peer_joined newcomer name a) newcomer
       \<and> conns (on_video_peer_joined newcomer name a) = conns a
       \<and> next_conn (on_video_peer_joined newcomer name a) = next_conn a
       \<and> offer_targets (sent_since b (on_video_peers present b)) = present
       \<and> length (sent_since b (on_video_peers present b)) = length present
       \<and> (\<forall>pid \<in> set present. connected_to (on_video_peers present b) pid)
       \<and> offer_targets
           (sent_since a (handleOffer newcomer sdp (on_video_peer_joined newcomer name a))) = []
       \<and> answer_targets
           (sent_since a (handleOffer newcomer sdp (on_video_peer_joined newcomer name a)))
           = [newcomer]
       \<and> connected_to (handleOffer newcomer sdp (on_video_peer_joined newcomer name a)) newcomer"
proof -
  let ?j = "on_video_peer_joined newcomer name a"
  have j: "outbox ?j = outbox a" "socket ?j = socket a"
    by (simp_all add: on_video_peer_joined_def outbox_def)
  have 1: "sent_since a ?j = []" by (simp add: sent_since_def j)
  have 2: "\<not> connected_to ?j newcomer"
    by (simp add: on_video_peer_joined_def connected_to_def update_conv')
  have 3: "conns ?j = conns a" "next_conn ?j = next_conn a"
    by (simp_all add: on_video_peer_joined_def)
  have 4: "sent_since b (on_video_peers present b)
           = map (\<lambda>pid. VideoOffer pid
               (Some (createOffer (fold addTrack (local_tracks b) new_RTCPeerConnection)))) present"
    by (simp add: sent_since_def on_video_peers_outbox [OF assms(2)])
  have 5: "sent_since a (handleOffer newcomer sdp ?j)
           = [VideoAnswer newcomer
               (Some (createAnswer (fold addTrack (local_tracks ?j) new_RTCPeerConnection)))]"
    using assms(1) by (simp add: sent_since_def handleOffer_outbox j)
  show ?thesis
    using 1 2 3
    by (simp add: 4 5 offer_targets_map_offer on_video_peers_connected handleOffer_connected)
qed

theorem newcomer_offers_existing_answers_witness:
  "socket ready_store \<noteq> None
   \<and> offer_targets (sent_since ready_store (on_video_peers [''A'', ''C''] ready_store))
       = [''A'', ''C'']
   \<and> answer_targets (sent_since ready_store
        (handleOffer ''B'' bobs_offer (on_video_peer_joined ''B'' ''Bob'' ready_store))) = [''B'']
   \<and> offer_targets (sent_since ready_store
        (handleOffer ''B'' bobs_offer (on_video_peer_joined ''B'' ''Bob'' ready_store))) = []
   \<and> connected_to (on_video_peers [''A'', ''C''] ready_store) ''C''"
proof -
  have h: "socket ready_store \<noteq> None"
    by (simp add: more_defs)
  show ?thesis
    using h newcomer_offers_existing_answers
      [OF h h, of "''B''" "''Bob''" "[''A'', ''C'']" bobs_offer]
    by simp
qed

section \<open>A participant leaves\<close>

text \<open>
  After \<open>B\<close> has left, an offer that carries the id of \<open>B\<close> is handled like any other
  offer: the registry holds a connection for \<open>B\<close> again, a new connection object was
  allocated and an answer was sent.
\<close>

theorem offer_after_leave_counterexample:
  "map_of (peers (receive (Video_peer_left ''B'') joined_store)) ''B'' = None
   \<and> connected_to
       (receive (Video_offer ''B'' bobs_offer) (receive (Video_peer_left ''B'') joined_store)) ''B''
   \<and> answer_targets (sent_since (receive (Video_peer_left ''B'') joined_store)
        (receive (Video_offer ''B'' bobs_offer) (receive (Video_peer_left ''B'') joined_store)))
       = [''B'']
   \<and> next_conn (receive (Video_offer ''B'' bobs_offer) (receive (Video_peer_left ''B'') joined_store))
       \<noteq> next_conn (receive (Video_peer_left ''B'') joined_store)"
  by (simp add: more_defs)

text \<open>
  Claim C5, in the form that holds of the code. For a participant present in the registry,
  the \<^verbatim>\<open>video_peer_left\<close> handler closes the connection of its
  entry, when the entry has one, leaves every other connection object as it is, and
  removes the entry, leaving the other entries in place. In the state it leaves, an answer
  or an ICE candidate that carries the id of the participant is dropped: the state is
  unchanged.
\<close>

theorem peer_left_releases_connection:
  assumes "map_of (peers s) pid = Some p"
  shows "map_of (peers (on_video_peer_left pid s)) pid = None
       \<and> (\<forall>c. connection p = Some c \<longrightarrow> closed (conns (on_video_peer_left pid s) c))
       \<and> (\<forall>c. connection p \<noteq> Some c \<longrightarrow> conns (on_video_peer_left pid s) c = conns s c)
       \<and> (\<forall>q. q \<noteq> pid \<longrightarrow> map_of (peers (on_video_peer_left pid s)) q = map_of (peers s) q)
       \<and> handleAnswer pid sdp (on_video_peer_left pid s) = on_video_peer_left pid s
       \<and> handleIceCandidate pid k (on_video_peer_left pid s) = on_video_peer_left pid s"
  using assms
  by (auto simp add: on_video_peer_left_def Let_def delete_conv' handleAnswer_def
        handleIceCandidate_def close_connection_def split: option.splits)

theorem peer_left_releases_connection_witness:
  "map_option connection (map_of (peers joined_store) ''B'') = Some (Some 0)
   \<and> \<not> closed (conns joined_store 0)
   \<and> closed (conns (on_video_peer_left ''B'' joined_store) 0)
   \<and> map_of (peers (on_video_peer_left ''B'' joined_store)) ''B'' = None
   \<and> handleIceCandidate ''B'' ''candidate:1'' (on_video_peer_left ''B'' joined_store)
       = on_video_peer_left ''B'' joined_store"
proof -
  let ?p = "\<lparr>peer_id = ''B'', peer_name = ''Unknown'', connection = Some 0, stream = None,
             peer_audioMuted = False, peer_videoMuted = False\<rparr>"
  have h: "map_of (peers joined_store) ''B'' = Some ?p"
    by (simp add: more_defs)
  have o: "\<not> closed (conns joined_store 0)"
    by (simp add: more_defs)
  show ?thesis
    using h o peer_left_releases_connection [OF h, of bobs_offer "''candidate:1''"] by simp
qed

section \<open>The virtual participant has no connection of its own\<close>

lemma connected_to_peers_cong:
  "peers s' = peers s \<Longrightarrow> connected_to s' q = connected_to s q"
  by (simp add: connected_to_def)

lemma handleOffer_connected_iff:
  "connected_to (handleOffer fromId sdp s) q \<longleftrightarrow> q = fromId \<or> connected_to s q"
  by (simp add: handleOffer_def createPeerConnection_def Let_def connected_to_def update_conv')

lemma startScreenShare_peers: "peers (snd (startScreenShare outcome s)) = peers s"
proof -
  have "peers (peers_forEach (replace_cb t) u) = peers u" for t u
    by (rule peers_forEach_peers) (simp add: replace_cb_def split: option.splits)
  then show ?thesis
    by (simp add: startScreenShare_def Let_def split: sum.splits option.splits)
qed

lemma stopScreenShare_peers: "peers (stopScreenShare s) = peers s"
proof -
  have "peers (peers_forEach (replace_cb t) u) = peers u" for t u
    by (rule peers_forEach_peers) (simp add: replace_cb_def split: option.splits)
  then show ?thesis
    by (simp add: stopScreenShare_def Let_def stop_tracks_def split: option.splits)
qed

lemma receive_keeps_agent_unconnected:
  assumes "\<not> connected_to s ''ai-facilitator''" "\<not> dials_agent (Server m)"
  shows "\<not> connected_to (receive m s) ''ai-facilitator''"
proof (cases m)
  case (Video_peers ps)
  then show ?thesis using assms by (simp add: on_video_peers_connected)
next
  case (Video_peer_joined pid name)
  then show ?thesis using assms
    by (simp add: on_video_peer_joined_def connected_to_def update_conv')
next
  case (Video_peer_left pid)
  then show ?thesis using assms
    by (simp add: on_video_peer_left_def Let_def connected_to_def delete_conv' split: option.splits)
next
  case (Video_offer fromId sdp)
  then show ?thesis using assms by (simp add: handleOffer_connected_iff)
next
  case (Video_answer fromId sdp)
  then show ?thesis using assms
    by (simp add: handleAnswer_def connected_to_def split: option.splits)
next
  case (Video_ice_candidate fromId k)
  then show ?thesis using assms
    by (simp add: handleIceCandidate_def connected_to_def split: option.splits)
next
  case (Video_mute_status pid am vm)
  then show ?thesis using assms
    by (auto simp add: on_video_mute_status_def connected_to_def update_conv' split: option.splits)
qed

lemma step_keeps_agent_unconnected:
  assumes "\<not> connected_to s ''ai-facilitator''" "\<not> dials_agent ev"
  shows "\<not> connected_to (store_step ev s) ''ai-facilitator''"
proof (cases ev)
  case (Server m)
  then show ?thesis using assms by (simp add: receive_keeps_agent_unconnected)
next
  case (Call_initLocalMedia video audio outcome)
  then show ?thesis using assms
    by (simp add: initLocalMedia_def connected_to_def split: sum.splits)
next
  case (Call_startScreenShare outcome)
  then show ?thesis using assms
    by (simp add: connected_to_peers_cong [OF startScreenShare_peers])
next
  case Call_stopScreenShare
  then show ?thesis using assms
    by (simp add: connected_to_peers_cong [OF stopScreenShare_peers])
next
  case Call_toggleAudio
  then show ?thesis using assms
    by (simp add: toggleAudio_def flip_enabled_def Let_def connected_to_def split: option.splits)
next
  case Call_toggleVideo
  then show ?thesis using assms
    by (simp add: toggleVideo_def flip_enabled_def Let_def connected_to_def split: option.splits)
next
  case (Call_connectVideo sid name existingSocket)
  then show ?thesis using assms
    by (simp add: connectVideo_def connected_to_def)
next
  case (Call_connectAIRealtime keyResponse sdpResponse)
  then show ?thesis using assms
    by (simp add: connectAIRealtime_def Let_def connected_to_def
          split: option.splits response.splits)
next
  case Call_disconnectAI
  then show ?thesis using assms
    by (simp add: disconnectAI_def Let_def connected_to_def delete_conv' split: option.splits)
next
  case Call_disconnect
  then show ?thesis
    by (simp add: disconnect_def Let_def disconnectAI_def connected_to_def stop_tracks_def
          delete_conv' split: option.splits)
next
  case (Call_setAIAudioStream st)
  then show ?thesis
    by (simp add: setAIAudioStream_def Let_def connected_to_def broadcastAIAudio_peers
          update_conv' ai_peer_def)
next
  case Call_broadcastAIAudio
  then show ?thesis using assms
    by (simp add: connected_to_peers_cong [OF broadcastAIAudio_peers])
next
  case (Call_handleRemoteAIAudio st)
  then show ?thesis using assms
    by (simp add: handleRemoteAIAudio_def Let_def connected_to_def update_conv' ai_peer_def)
next
  case (Pc_ontrack peerId streams)
  then show ?thesis using assms
    by (auto simp add: pc_ontrack_def connected_to_def update_conv' split: option.splits)
next
  case (Pc_onicecandidate peerId candidate)
  then show ?thesis using assms
    by (simp add: pc_onicecandidate_def connected_to_def split: option.splits)
next
  case (Dc_onmessage e)
  then show ?thesis using assms
    by (simp add: dc_onmessage_def connected_to_def split: realtime_event.splits)
qed

lemma run_keeps_agent_unconnected:
  "\<not> connected_to s ''ai-facilitator'' \<Longrightarrow> \<forall>ev \<in> set evs. \<not> dials_agent ev \<Longrightarrow>
   \<not> connected_to (store_run evs s) ''ai-facilitator''"
  unfolding store_run_def
proof (induction evs arbitrary: s)
  case Nil
  then show ?case by simp
next
  case (Cons ev evs)
  have "\<not> connected_to (store_step ev s) ''ai-facilitator''"
    using Cons.prems by (simp add: step_keeps_agent_unconnected)
  then show ?case using Cons by simp
qed

lemma session_events_state:
  "map_option connection (map_of (peers (store_run session_events initial_store)) ''ai-facilitator'')
     = Some None
   \<and> map_option connection (map_of (peers (store_run session_events initial_store)) ''C'')
     = Some (Some 1)"
  by (simp add: session_events_def store_run_def more_defs pc_ontrack_def)

text \<open>
  \<^verbatim>\<open>createPeerConnection\<close> does not look at the id it is given. On the host, an offer
  that comes from the id \<^verbatim>\<open>'ai-facilitator'\<close> gives the entry of the virtual
  participant a connection. A client that is not the host and has adopted the agent's
  audio sends an offer to \<^verbatim>\<open>'ai-facilitator'\<close> when a snapshot lists that id, and
  then holds a connection for it.
\<close>

theorem agent_id_dialled_counterexample:
  "\<not> connected_to (setAIAudioStream agent_stream joined_store) ''ai-facilitator''
   \<and> connected_to
       (receive (Video_offer ''ai-facilitator'' bobs_offer)
          (setAIAudioStream agent_stream joined_store)) ''ai-facilitator''
   \<and> \<not> isAIHost (handleRemoteAIAudio agent_stream ready_store)
   \<and> \<not> connected_to (handleRemoteAIAudio agent_stream ready_store) ''ai-facilitator''
   \<and> offer_targets
       (sent_since (handleRemoteAIAudio agent_stream ready_store)
          (receive (Video_peers [''ai-facilitator''])
             (handleRemoteAIAudio agent_stream ready_store))) = [''ai-facilitator'']
   \<and> connected_to
       (receive (Video_peers [''ai-facilitator''])
          (handleRemoteAIAudio agent_stream ready_store)) ''ai-facilitator''"
  by (simp add: more_defs)

text \<open>
  Claim C9, in the form that holds of the code. As long as no snapshot lists the id
  \<^verbatim>\<open>'ai-facilitator'\<close> and no offer comes from it, the registry entry of the
  virtual participant never carries a connection: it carries none in the initial state
  of the store, and from any state in which it carries none it carries none after any
  sequence of server messages, calls of the store's actions and callbacks of its
  connections. \<^verbatim>\<open>setAIAudioStream\<close> (on the host) and \<^verbatim>\<open>handleRemoteAIAudio\<close> (on
  a client that is not the host) store under that id an entry without a connection, and
  neither allocates a connection. \<^verbatim>\<open>handleRemoteAIAudio\<close> touches no connection and
  sends nothing, and on the host it leaves the state as it is.
\<close>

theorem ai_entry_never_connected:
  assumes "\<not> connected_to s ''ai-facilitator''" "\<forall>ev \<in> set evs. \<not> dials_agent ev"
  shows "\<not> connected_to initial_store ''ai-facilitator''
       \<and> \<not> connected_to (store_run evs s) ''ai-facilitator''
       \<and> map_of (peers (setAIAudioStream st u)) ''ai-facilitator'' = Some (ai_peer st)
       \<and> connection (ai_peer st) = None
       \<and> next_conn (setAIAudioStream st u) = next_conn u
       \<and> (\<not> isAIHost u
            \<longrightarrow> map_of (peers (handleRemoteAIAudio st u)) ''ai-facilitator'' = Some (ai_peer st))
       \<and> (isAIHost u \<longrightarrow> handleRemoteAIAudio st u = u)
       \<and> conns (handleRemoteAIAudio st u) = conns u
       \<and> next_conn (handleRemoteAIAudio st u) = next_conn u
       \<and> socket (handleRemoteAIAudio st u) = socket u"
proof -
  have i: "\<not> connected_to initial_store ''ai-facilitator''"
    by (simp add: initial_store_def connected_to_def)
  have r: "\<not> connected_to (store_run evs s) ''ai-facilitator''"
    using assms by (rule run_keeps_agent_unconnected)
  show ?thesis
    using i r agent_entry_written_without_connection [of st u] by simp
qed

theorem ai_entry_never_connected_witness:
  "\<not> connected_to initial_store ''ai-facilitator''
   \<and> filter dials_agent session_events = []
   \<and> \<not> connected_to (store_run session_events initial_store) ''ai-facilitator''
   \<and> map_option connection
       (map_of (peers (store_run session_events initial_store)) ''ai-facilitator'') = Some None
   \<and> \<not> isAIHost joined_store
   \<and> map_option connection
       (map_of (peers (handleRemoteAIAudio agent_stream joined_store)) ''ai-facilitator'')
       = Some None
   \<and> isAIHost (setAIAudioStream agent_stream joined_store)
   \<and> handleRemoteAIAudio agent_stream (setAIAudioStream agent_stream joined_store)
       = setAIAudioStream agent_stream joined_store"
proof -
  have h0: "\<not> connected_to initial_store ''ai-facilitator''"
    by (simp add: initial_store_def connected_to_def)
  have h1: "\<forall>ev \<in> set session_events. \<not> dials_agent ev"
    by (simp add: session_events_def)
  have h2: "\<not> isAIHost joined_store"
    by (simp add: more_defs)
  have h3: "isAIHost (setAIAudioStream agent_stream joined_store)"
    by (simp add: more_defs)
  have h1': "filter dials_agent session_events = []"
    by (simp add: session_events_def)
  show ?thesis
    using h0 h1' h2 h3 session_events_state
      ai_entry_never_connected [OF h0 h1, of agent_stream joined_store]
      ai_entry_never_connected [OF h0 h1, of agent_stream
        "setAIAudioStream agent_stream joined_store"]
    by simp
qed

section \<open>Pause and resume messages\<close>

text \<open>
  A paused timer that shows four seconds receives the resume message carrying nine
  seconds: it still shows four.
\<close>

theorem resume_keeps_local_elapsed_counterexample:
  "elapsedSeconds drifting_client = 4
   \<and> elapsedSeconds (timer_step (Msg_timer_paused False 9) drifting_client) = 4
   \<and> elapsedSeconds (timer_step (Msg_timer_paused False 9) drifting_client) \<noteq> 9"
  by (simp add: drifting_client_def timer_defs Let_def)

text \<open>
  Claim C2, in the form that holds of the code. After a client has processed a
  \<^verbatim>\<open>timer_paused\<close> message, pause or resume, the store's synced
  elapsed seconds and its pause flag are the ones the message carried. When the message
  pauses a client whose store was not paused, the elapsed seconds of the timer component
  are the ones of the message as well, whatever the component had counted before.
\<close>

theorem timer_paused_adoption:
  "syncedElapsedSeconds (process_timer_paused paused e c) = e
   \<and> isPaused (process_timer_paused paused e c) = paused
   \<and> (paused \<and> \<not> isPaused c \<longrightarrow> elapsedSeconds (process_timer_paused paused e c) = e)"
  by (simp add: process_timer_paused_def run_isPaused_watcher_def on_timer_paused_def
        watch_isPaused_def pauseTimerLocal_def startTimerLocal_def Let_def split: option.splits)

theorem timer_paused_adoption_witness:
  "\<not> isPaused short_workshop
   \<and> elapsedSeconds (process_timer_paused True 4 short_workshop) = 4"
proof -
  have h: "\<not> isPaused short_workshop"
    by (simp add: short_workshop_def timer_defs Let_def)
  show ?thesis
    using h timer_paused_adoption [of True 4 short_workshop] by simp
qed

section \<open>Threshold notifications\<close>

lemma extends_same:
  "emitted c' = emitted c \<Longrightarrow> warningsSent c' = warningsSent c \<Longrightarrow> extends c c'"
  by (simp add: extends_def)

lemma extends_trans:
  assumes "extends c c'" "extends c' c''"
  shows "extends c c''"
proof -
  obtain e1 where e1: "emitted c' = emitted c @ e1" "distinct (map warning_key e1)"
      "warning_key ` set e1 \<inter> warningsSent c = {}"
      "warningsSent c' = warningsSent c \<union> warning_key ` set e1"
    using assms(1) by (auto simp: extends_def)
  obtain e2 where e2: "emitted c'' = emitted c' @ e2" "distinct (map warning_key e2)"
      "warning_key ` set e2 \<inter> warningsSent c' = {}"
      "warningsSent c'' = warningsSent c' \<union> warning_key ` set e2"
    using assms(2) by (auto simp: extends_def)
  have "emitted c'' = emitted c @ (e1 @ e2)" using e1(1) e2(1) by simp
  moreover have "distinct (map warning_key (e1 @ e2))"
    using e1(2) e2(2) e2(3) e1(4) by auto
  moreover have "warning_key ` set (e1 @ e2) \<inter> warningsSent c = {}"
    using e1(3) e2(3) e1(4) by auto
  moreover have "warningsSent c'' = warningsSent c \<union> warning_key ` set (e1 @ e2)"
    using e1(4) e2(4) by auto
  ultimately show ?thesis unfolding extends_def by blast
qed

lemma extends_warn_once:
  "warning_key ev = key \<Longrightarrow> extends c (warn_once b key ev c)"
  unfolding extends_def warn_once_def
  by (cases "b \<and> key \<notin> warningsSent c") auto

lemma pauseTimerLocal_log [simp]:
  "emitted (pauseTimerLocal c) = emitted c" "warningsSent (pauseTimerLocal c) = warningsSent c"
  by (simp_all add: pauseTimerLocal_def Let_def split: option.splits)

lemma startTimerLocal_log [simp]:
  "emitted (startTimerLocal c) = emitted c" "warningsSent (startTimerLocal c) = warningsSent c"
  by (simp_all add: startTimerLocal_def)

lemma session_emit_log [simp]:
  "emitted (session_emit m c) = emitted c" "warningsSent (session_emit m c) = warningsSent c"
  by (simp_all add: session_emit_def split: option.splits)

lemma extends_checkTimeEvents: "extends c (checkTimeEvents c)"
proof -
  let ?ph = "currentPhase c"
  let ?c1 = "warn_once (phaseRemainingSeconds c = 300) (phase_str ?ph @ ''-5min'')
                 (TimeWarning ''phase-5min'' 5 ?ph) c"
  let ?c2 = "warn_once (phaseRemainingSeconds c = 60) (phase_str ?ph @ ''-1min'')
                 (TimeWarning ''phase-1min'' 1 ?ph) ?c1"
  let ?c3 = "warn_once (phaseRemainingSeconds c = 0) (phase_str ?ph @ ''-end'')
                 (PhaseTimeUp ?ph) ?c2"
  let ?c4 = "warn_once (remainingSeconds c = 600) ''total-10min''
                 (TimeWarning ''total-10min'' 10 ?ph) ?c3"
  let ?c5 = "warn_once (remainingSeconds c = 300) ''total-5min''
                 (TimeWarning ''total-5min'' 5 ?ph) ?c4"
  let ?c6 = "warn_once True ''workshop-end'' WorkshopEnd ?c5"
  have 1: "extends c ?c1" by (rule extends_warn_once) simp
  have 2: "extends ?c1 ?c2" by (rule extends_warn_once) simp
  have 3: "extends ?c2 ?c3" by (rule extends_warn_once) simp
  have 4: "extends ?c3 ?c4" by (rule extends_warn_once) simp
  have 5: "extends ?c4 ?c5" by (rule extends_warn_once) simp
  have 6: "extends ?c5 ?c6" by (rule extends_warn_once) simp
  have 7: "extends ?c6 (pauseTimerLocal ?c6)" by (rule extends_same) simp_all
  have c5: "extends c ?c5"
    using 1 2 3 4 5 by (blast intro: extends_trans)
  have c7: "extends c (pauseTimerLocal ?c6)"
    using c5 6 7 by (blast intro: extends_trans)
  have "checkTimeEvents c = ?c5 \<or> checkTimeEvents c = pauseTimerLocal ?c6"
    by (simp add: checkTimeEvents_def Let_def)
  then show ?thesis using c5 c7 by auto
qed

lemma extends_step: "i \<noteq> Click_reset \<Longrightarrow> extends c (timer_step i c)"
proof (cases i)
  case Tick
  have "extends c (interval_tick c)"
  proof (cases "isPaused c")
    case True
    then show ?thesis by (simp add: interval_tick_def extends_same)
  next
    case False
    have "extends c (c\<lparr>elapsedSeconds := elapsedSeconds c + 1\<rparr>)"
      by (rule extends_same) simp_all
    then show ?thesis
      using False extends_checkTimeEvents [of "c\<lparr>elapsedSeconds := elapsedSeconds c + 1\<rparr>"]
      by (auto simp: interval_tick_def intro: extends_trans)
  qed
  then show ?thesis using Tick by (simp add: extends_same)
next
  case Click_toggle
  then show ?thesis
    by (auto simp: toggleTimer_def Let_def pauseTimer_def startWorkshop_def intro!: extends_same)
next
  case Click_reset
  assume "i \<noteq> Click_reset"
  then show ?thesis using Click_reset by simp
next
  case (Mounted now)
  then show ?thesis
    by (auto simp: onMounted_def requestTimerSync_def intro!: extends_same split: option.splits)
next
  case (Msg_workshop_started now at ph)
  then show ?thesis
    by (auto simp: run_isPaused_watcher_def watch_isPaused_def watch_workshopStartedAt_def
          on_workshop_started_def Let_def intro!: extends_same split: option.splits)
next
  case (Msg_timer_sync now at ph)
  then show ?thesis
    by (auto simp: watch_workshopStartedAt_def on_timer_sync_def Let_def
          intro!: extends_same split: option.splits)
next
  case (Msg_timer_paused paused elapsed)
  then show ?thesis
    by (auto simp: process_timer_paused_def run_isPaused_watcher_def watch_isPaused_def
          on_timer_paused_def intro!: extends_same)
next
  case (Msg_phase_changed ph)
  then show ?thesis
    by (auto simp: on_phase_changed_def intro!: extends_same)
qed

lemma extends_run: "Click_reset \<notin> set ins \<Longrightarrow> extends c (timer_run ins c)"
  unfolding timer_run_def
proof (induction ins arbitrary: c)
  case Nil
  then show ?case by (simp add: extends_same)
next
  case (Cons i ins)
  have "i \<noteq> Click_reset" using Cons.prems by auto
  then have "extends c (timer_step i c)" by (rule extends_step)
  moreover have "extends (timer_step i c) (fold timer_step ins (timer_step i c))"
    using Cons by simp
  ultimately show ?case by (auto intro: extends_trans)
qed

lemma eight_ticks_log:
  "emitted_since short_workshop (timer_run eight_ticks short_workshop) = [PhaseTimeUp Orientation]"
  by (simp add: short_workshop_def eight_ticks_def emitted_since_def timer_defs Let_def)

text \<open>
  Claim C8. Over any sequence of ticks, clicks on the play button, mounting and incoming
  messages that contains no click on the reset button, the notifications a client raises
  have pairwise distinct threshold keys, so each threshold (the five-minute, one-minute
  and end warning of a phase, the ten-minute and five-minute warning and the end of the
  workshop) is notified at most once; no notification is raised for a key that was in
  the already-notified set at the start; and the set only grows. The reset button
  empties the set.
\<close>

theorem notified_once_between_resets:
  assumes "Click_reset \<notin> set ins"
  shows "distinct (map warning_key (emitted_since c (timer_run ins c)))
       \<and> (\<forall>e \<in> set (emitted_since c (timer_run ins c)). warning_key e \<notin> warningsSent c)
       \<and> warningsSent c \<subseteq> warningsSent (timer_run ins c)
       \<and> warningsSent (timer_step Click_reset c) = {}"
proof -
  from extends_run [OF assms, of c]
  obtain evs where e: "emitted (timer_run ins c) = emitted c @ evs"
      "distinct (map warning_key evs)" "warning_key ` set evs \<inter> warningsSent c = {}"
      "warningsSent (timer_run ins c) = warningsSent c \<union> warning_key ` set evs"
    by (auto simp: extends_def)
  have "emitted_since c (timer_run ins c) = evs"
    by (simp add: emitted_since_def e(1))
  then show ?thesis using e by (auto simp: reset_button_def)
qed

theorem notified_once_between_resets_witness:
  "Click_reset \<notin> set eight_ticks
   \<and> emitted_since short_workshop (timer_run eight_ticks short_workshop) = [PhaseTimeUp Orientation]
   \<and> distinct (map warning_key (emitted_since short_workshop (timer_run eight_ticks short_workshop)))
   \<and> warningsSent short_workshop \<subseteq> warningsSent (timer_run eight_ticks short_workshop)"
proof -
  have h: "Click_reset \<notin> set eight_ticks"
    by (simp add: eight_ticks_def)
  show ?thesis
    using h notified_once_between_resets [OF h, of short_workshop] eight_ticks_log by simp
qed

end
